theory Spec2Isabelle
  imports Complex_Main
begin

section \<open>JavaScript strings\<close>

text \<open>
  \<^verbatim>\<open>String.prototype.includes\<close> is a substring test. \<open>startsWith xs pat\<close> says that
  \<open>pat\<close> is a prefix of \<open>xs\<close>; \<open>js_includes xs pat\<close> tries every position of \<open>xs\<close>.
\<close>

fun startsWith :: "string \<Rightarrow> string \<Rightarrow> bool" where
  "startsWith xs [] = True"
| "startsWith [] (p # ps) = False"
| "startsWith (c # cs) (p # ps) = (c = p \<and> startsWith cs ps)"

fun js_includes :: "string \<Rightarrow> string \<Rightarrow> bool" where
  "js_includes [] pat = (pat = [])"
| "js_includes (c # cs) pat = (startsWith (c # cs) pat \<or> js_includes cs pat)"

text \<open>
  \<^verbatim>\<open>s.split(', ')\<close>, for the one separator the code splits on; \<open>acc\<close> holds the
  current piece, reversed.
\<close>

fun split_comma_space :: "string \<Rightarrow> string \<Rightarrow> string list" where
  "split_comma_space acc [] = [rev acc]"
| "split_comma_space acc [c] = [rev (c # acc)]"
| "split_comma_space acc (c # d # cs) =
     (if c = CHR '','' \<and> d = CHR '' '' then rev acc # split_comma_space [] cs
      else split_comma_space (c # acc) (d # cs))"

text \<open>
  \<^verbatim>\<open>s.trim()\<close> removes white space and line terminators at both ends. Strings are byte
  strings here, in UTF-8, so a white-space character is a sequence of one to three bytes:
  tab, line feed, vertical tab, form feed, carriage return, space; U+00A0; U+1680; U+2000
  to U+200A; U+2028, U+2029, U+202F; U+205F; U+3000; U+FEFF.
\<close>

definition js_white_space :: "string list" where
  "js_white_space =
     [[CHR 0x09], [CHR 0x0A], [CHR 0x0B], [CHR 0x0C], [CHR 0x0D], [CHR 0x20],
      [CHR 0xC2, CHR 0xA0],
      [CHR 0xE1, CHR 0x9A, CHR 0x80],
      [CHR 0xE2, CHR 0x80, CHR 0x80], [CHR 0xE2, CHR 0x80, CHR 0x81],
      [CHR 0xE2, CHR 0x80, CHR 0x82], [CHR 0xE2, CHR 0x80, CHR 0x83],
      [CHR 0xE2, CHR 0x80, CHR 0x84], [CHR 0xE2, CHR 0x80, CHR 0x85],
      [CHR 0xE2, CHR 0x80, CHR 0x86], [CHR 0xE2, CHR 0x80, CHR 0x87],
      [CHR 0xE2, CHR 0x80, CHR 0x88], [CHR 0xE2, CHR 0x80, CHR 0x89],
      [CHR 0xE2, CHR 0x80, CHR 0x8A],
      [CHR 0xE2, CHR 0x80, CHR 0xA8], [CHR 0xE2, CHR 0x80, CHR 0xA9],
      [CHR 0xE2, CHR 0x80, CHR 0xAF],
      [CHR 0xE2, CHR 0x81, CHR 0x9F],
      [CHR 0xE3, CHR 0x80, CHR 0x80],
      [CHR 0xEF, CHR 0xBB, CHR 0xBF]]"

text \<open>
  \<open>white_space_at ws s\<close> is the length of the sequence of \<open>ws\<close> that \<open>s\<close> starts with, and 0
  when it starts with none; \<open>dropWhiteSpace\<close> removes such sequences from the front while
  there is one.
\<close>

definition white_space_at :: "string list \<Rightarrow> string \<Rightarrow> nat" where
  "white_space_at ws s = (case find (startsWith s) ws of None \<Rightarrow> 0 | Some w \<Rightarrow> length w)"

function dropWhiteSpace :: "string list \<Rightarrow> string \<Rightarrow> string" where
  "dropWhiteSpace ws s =
     (if white_space_at ws s = 0 then s
      else dropWhiteSpace ws (drop (white_space_at ws s) s))"
  by pat_completeness auto
termination
proof (relation "measure (\<lambda>(ws, s). length s)")
  show "wf (measure (\<lambda>(ws, s). length s))" by simp
next
  fix ws :: "string list" and s :: string
  assume pos: "white_space_at ws s \<noteq> 0"
  have "s \<noteq> []"
  proof
    assume "s = []"
    then obtain w where "find (startsWith []) ws = Some w" and "length w \<noteq> 0"
      using pos by (auto simp add: white_space_at_def split: option.splits)
    then have "startsWith [] w" and "w \<noteq> []" by (auto simp add: find_Some_iff)
    then show False by (cases w) simp_all
  qed
  then show "((ws, drop (white_space_at ws s) s), (ws, s)) \<in> measure (\<lambda>(ws, s). length s)"
    using pos by simp
qed

declare dropWhiteSpace.simps [simp del]

text \<open>At the end of the string the same, on the reversed string and the reversed sequences.\<close>

definition js_trim :: "string \<Rightarrow> string" where
  "js_trim s =
     rev (dropWhiteSpace (map rev js_white_space) (rev (dropWhiteSpace js_white_space s)))"

text \<open>\<^verbatim>\<open>s.toLowerCase()\<close>, on the ASCII letters.\<close>

definition js_lower_char :: "char \<Rightarrow> char" where
  "js_lower_char c =
     (case map_of (zip ''ABCDEFGHIJKLMNOPQRSTUVWXYZ'' ''abcdefghijklmnopqrstuvwxyz'') c of
        None \<Rightarrow> c
      | Some d \<Rightarrow> d)"

definition js_toLowerCase :: "string \<Rightarrow> string" where
  "js_toLowerCase s = map js_lower_char s"

subsection \<open>src/utils/validation.ts\<close>

text \<open>
  \<^verbatim>\<open>if (!url) return false;
  return url.includes('linkedin.com/feed/update/') || url.includes('linkedin.com/posts/');\<close>
  The parameter is typed \<^verbatim>\<open>string\<close>, so \<^verbatim>\<open>!url\<close> holds exactly for the empty string.
\<close>

definition isValidLinkedInPostUrl :: "string \<Rightarrow> bool" where
  "isValidLinkedInPostUrl url =
     (if url = [] then False
      else js_includes url ''linkedin.com/feed/update/'' \<or> js_includes url ''linkedin.com/posts/'')"

section \<open>The browser driver\<close>

text \<open>
  Puppeteer is an external collaborator. Its page is a mutable resource whose reaction to a
  call is not determined by this repository, so the model takes it as a parameter: a world
  of an arbitrary type \<open>'w\<close> and a driver, one oracle for each call the code makes. An
  oracle returns the call's outcome (\<open>Inl msg\<close> for a rejected promise carrying
  \<^verbatim>\<open>error.message\<close>, \<open>Inr v\<close> for a resolved one) and the world after the call.

  \<^verbatim>\<open>page.waitForTimeout\<close> is a plain timer that never rejects and \<^verbatim>\<open>page.url()\<close> is a
  synchronous getter, so these two have no failure outcome. The logger and
  \<^verbatim>\<open>console.log\<close> only print; they are left out.
\<close>

type_synonym handle = nat

type_synonym 'a res = "string + 'a"

record credentials =
  cred_username :: string
  cred_password :: string
  cred_use2FA :: bool
  cred_twoFactorCode :: "string option"
  cred_headless :: "bool option"

text \<open>\<^verbatim>\<open>interface LinkedInPost\<close> of src/types/linkedin.ts, with the fields getPostInfo fills.\<close>

record linkedInPost =
  lp_authorName :: string
  lp_authorHeadline :: string
  lp_authorProfileUrl :: string
  lp_postText :: string
  lp_postDate :: string
  lp_isLiked :: bool
  lp_postUrl :: string

record 'w driver =
  d_goto :: "string \<Rightarrow> 'w \<Rightarrow> unit res \<times> 'w"
  d_waitForSelector :: "string \<Rightarrow> bool \<Rightarrow> 'w \<Rightarrow> handle option res \<times> 'w"
  d_waitForTimeout :: "nat \<Rightarrow> 'w \<Rightarrow> 'w"
  d_waitForNavigation :: "'w \<Rightarrow> unit res \<times> 'w"
  d_screenshot :: "string \<Rightarrow> 'w \<Rightarrow> unit res \<times> 'w"
  d_timestamp :: "'w \<Rightarrow> string"
  d_url :: "'w \<Rightarrow> string"
  d_content :: "'w \<Rightarrow> string res \<times> 'w"
  d_title :: "'w \<Rightarrow> string res \<times> 'w"
  d_query :: "string \<Rightarrow> 'w \<Rightarrow> handle option res \<times> 'w"
  d_queryAll :: "string \<Rightarrow> 'w \<Rightarrow> handle list res \<times> 'w"
  d_pageClick :: "string \<Rightarrow> 'w \<Rightarrow> unit res \<times> 'w"
  d_pageType :: "string \<Rightarrow> string \<Rightarrow> 'w \<Rightarrow> unit res \<times> 'w"
  d_click :: "handle \<Rightarrow> 'w \<Rightarrow> unit res \<times> 'w"
  d_type :: "handle \<Rightarrow> string \<Rightarrow> 'w \<Rightarrow> unit res \<times> 'w"
  d_isPressed :: "handle \<Rightarrow> 'w \<Rightarrow> bool res \<times> 'w"
  d_isDisabled :: "handle \<Rightarrow> 'w \<Rightarrow> bool res \<times> 'w"
  d_textContent :: "handle \<Rightarrow> 'w \<Rightarrow> string option res \<times> 'w"
  d_extractPost :: "'w \<Rightarrow> linkedInPost res \<times> 'w"
  d_getCredentials :: "'w \<Rightarrow> credentials option res \<times> 'w"
  d_launch :: "bool \<Rightarrow> 'w \<Rightarrow> unit res \<times> 'w"
  d_newPage :: "'w \<Rightarrow> unit res \<times> 'w"
  d_close :: "'w \<Rightarrow> unit res \<times> 'w"

text \<open>
  Every asynchronous call is recorded, with what it answered, in a trace kept beside the
  world, so that "no click happened" or "one page load happened" are statements about the
  trace. The calls on the browser itself, \<^verbatim>\<open>puppeteer.launch\<close>, \<^verbatim>\<open>browser.newPage\<close> and
  \<^verbatim>\<open>browser.close\<close>, are recorded among the calls on the page, in the order they are made.
\<close>

datatype lifecycle = Launch bool | NewPage | Close

datatype call =
    Goto string
  | WaitForSelector string bool
  | WaitForTimeout nat
  | WaitForNavigation
  | Screenshot string
  | Content
  | Title
  | Query string
  | QueryAll string
  | PageClick string
  | PageType string string
  | Click handle
  | TypeInto handle string
  | IsPressed handle
  | IsDisabled handle
  | TextContent handle
  | ExtractPost
  | GetCredentials
  | Browser lifecycle

datatype answer =
    Rejected string
  | Resolved
  | Flag bool
  | Element "handle option"
  | Elements "handle list"

record 'w page =
  world :: 'w
  trace :: "(call \<times> answer) list"

type_synonym ('w, 'a) prog = "'w page \<Rightarrow> 'a res \<times> 'w page"

definition perform :: "call \<Rightarrow> ('a \<Rightarrow> answer) \<Rightarrow> ('w \<Rightarrow> 'a res \<times> 'w) \<Rightarrow> ('w, 'a) prog" where
  "perform c shown f s =
     (case f (world s) of
        (Inl msg, w') \<Rightarrow> (Inl msg, \<lparr>world = w', trace = trace s @ [(c, Rejected msg)]\<rparr>)
      | (Inr v, w') \<Rightarrow> (Inr v, \<lparr>world = w', trace = trace s @ [(c, shown v)]\<rparr>))"

text \<open>Sequencing, \<^verbatim>\<open>throw\<close> and \<^verbatim>\<open>try { } catch (error) { }\<close> on programs.\<close>

definition ret :: "'a \<Rightarrow> ('w, 'a) prog" where
  "ret v s = (Inr v, s)"

definition throw :: "string \<Rightarrow> ('w, 'a) prog" where
  "throw msg s = (Inl msg, s)"

definition andThen :: "('w, 'a) prog \<Rightarrow> ('a \<Rightarrow> ('w, 'b) prog) \<Rightarrow> ('w, 'b) prog" where
  "andThen m k s = (case m s of (Inl msg, s') \<Rightarrow> (Inl msg, s') | (Inr v, s') \<Rightarrow> k v s')"

definition tryCatch :: "('w, 'a) prog \<Rightarrow> (string \<Rightarrow> ('w, 'a) prog) \<Rightarrow> ('w, 'a) prog" where
  "tryCatch m h s = (case m s of (Inl msg, s') \<Rightarrow> h msg s' | (Inr v, s') \<Rightarrow> (Inr v, s'))"

text \<open>
  \<^verbatim>\<open>await Promise.all([a, b])\<close>: both calls are issued, \<open>a\<close> first; the result is rejected
  when either is, with the message of the first rejection in that order.
\<close>

definition promiseAll2 :: "('w, unit) prog \<Rightarrow> ('w, unit) prog \<Rightarrow> ('w, unit) prog" where
  "promiseAll2 a b s =
     (case a s of
        (ra, s1) \<Rightarrow>
          (case b s1 of
             (rb, s2) \<Rightarrow>
               (case ra of
                  Inl msg \<Rightarrow> (Inl msg, s2)
                | Inr _ \<Rightarrow> (case rb of Inl msg \<Rightarrow> (Inl msg, s2) | Inr _ \<Rightarrow> (Inr (), s2)))))"

definition page_goto :: "'w driver \<Rightarrow> string \<Rightarrow> ('w, unit) prog" where
  "page_goto drv url = perform (Goto url) (\<lambda>_. Resolved) (d_goto drv url)"

definition page_waitForSelector :: "'w driver \<Rightarrow> string \<Rightarrow> bool \<Rightarrow> ('w, handle option) prog" where
  "page_waitForSelector drv sel vis =
     perform (WaitForSelector sel vis) Element (d_waitForSelector drv sel vis)"

definition page_waitForTimeout :: "'w driver \<Rightarrow> nat \<Rightarrow> ('w, unit) prog" where
  "page_waitForTimeout drv ms s =
     (Inr (), \<lparr>world = d_waitForTimeout drv ms (world s),
               trace = trace s @ [(WaitForTimeout ms, Resolved)]\<rparr>)"

definition page_waitForNavigation :: "'w driver \<Rightarrow> ('w, unit) prog" where
  "page_waitForNavigation drv = perform WaitForNavigation (\<lambda>_. Resolved) (d_waitForNavigation drv)"

definition page_screenshot :: "'w driver \<Rightarrow> string \<Rightarrow> ('w, unit) prog" where
  "page_screenshot drv path = perform (Screenshot path) (\<lambda>_. Resolved) (d_screenshot drv path)"

definition page_url :: "'w driver \<Rightarrow> 'w page \<Rightarrow> string" where
  "page_url drv s = d_url drv (world s)"

definition page_content :: "'w driver \<Rightarrow> ('w, string) prog" where
  "page_content drv = perform Content (\<lambda>_. Resolved) (d_content drv)"

definition page_title :: "'w driver \<Rightarrow> ('w, string) prog" where
  "page_title drv = perform Title (\<lambda>_. Resolved) (d_title drv)"

definition page_query :: "'w driver \<Rightarrow> string \<Rightarrow> ('w, handle option) prog" where
  "page_query drv sel = perform (Query sel) Element (d_query drv sel)"

definition page_queryAll :: "'w driver \<Rightarrow> string \<Rightarrow> ('w, handle list) prog" where
  "page_queryAll drv sel = perform (QueryAll sel) Elements (d_queryAll drv sel)"

definition page_click :: "'w driver \<Rightarrow> string \<Rightarrow> ('w, unit) prog" where
  "page_click drv sel = perform (PageClick sel) (\<lambda>_. Resolved) (d_pageClick drv sel)"

definition page_type :: "'w driver \<Rightarrow> string \<Rightarrow> string \<Rightarrow> ('w, unit) prog" where
  "page_type drv sel txt = perform (PageType sel txt) (\<lambda>_. Resolved) (d_pageType drv sel txt)"

definition elem_click :: "'w driver \<Rightarrow> handle \<Rightarrow> ('w, unit) prog" where
  "elem_click drv h = perform (Click h) (\<lambda>_. Resolved) (d_click drv h)"

definition elem_type :: "'w driver \<Rightarrow> handle \<Rightarrow> string \<Rightarrow> ('w, unit) prog" where
  "elem_type drv h txt = perform (TypeInto h txt) (\<lambda>_. Resolved) (d_type drv h txt)"

definition elem_isPressed :: "'w driver \<Rightarrow> handle \<Rightarrow> ('w, bool) prog" where
  "elem_isPressed drv h = perform (IsPressed h) Flag (d_isPressed drv h)"

definition elem_isDisabled :: "'w driver \<Rightarrow> handle \<Rightarrow> ('w, bool) prog" where
  "elem_isDisabled drv h = perform (IsDisabled h) Flag (d_isDisabled drv h)"

definition elem_textContent :: "'w driver \<Rightarrow> handle \<Rightarrow> ('w, string option) prog" where
  "elem_textContent drv h = perform (TextContent h) (\<lambda>_. Resolved) (d_textContent drv h)"

definition page_extractPost :: "'w driver \<Rightarrow> ('w, linkedInPost) prog" where
  "page_extractPost drv = perform ExtractPost (\<lambda>_. Resolved) (d_extractPost drv)"

definition getCredentials :: "'w driver \<Rightarrow> ('w, credentials option) prog" where
  "getCredentials drv = perform GetCredentials (\<lambda>_. Resolved) (d_getCredentials drv)"

section \<open>src/utils/browser.ts\<close>

subsection \<open>navigateWithRetry\<close>

text \<open>
  \<^verbatim>\<open>maxRetries\<close> is a JavaScript number: a finite value, which the loop only compares with
  the counter, an infinity, or NaN. The counter \<^verbatim>\<open>attempts\<close> starts at 0 and is only
  incremented, so it is an integer; \<^verbatim>\<open>attempts++\<close> is exact below \<open>2 ^ 53\<close> and leaves the
  counter unchanged from there on, where a double has no room for the next integer. The
  comparisons are those of the language: both are false for NaN.
\<close>

datatype jsnumber = Num rat | PosInfinity | NegInfinity | NaN

definition js_lt :: "int \<Rightarrow> jsnumber \<Rightarrow> bool" where
  "js_lt a n =
     (case n of Num q \<Rightarrow> of_int a < q | PosInfinity \<Rightarrow> True | NegInfinity \<Rightarrow> False
      | NaN \<Rightarrow> False)"

definition js_ge :: "int \<Rightarrow> jsnumber \<Rightarrow> bool" where
  "js_ge a n =
     (case n of Num q \<Rightarrow> q \<le> of_int a | PosInfinity \<Rightarrow> False | NegInfinity \<Rightarrow> True
      | NaN \<Rightarrow> False)"

definition js_increment :: "int \<Rightarrow> int" where
  "js_increment a = (if a < 2 ^ 53 then a + 1 else a)"

text \<open>
  \<^verbatim>\<open>let attempts = 0;
  while (attempts < maxRetries) {
    try { await page.goto(url, options); return true; }
    catch (error) {
      attempts++;
      if (attempts >= maxRetries) { return false; }
      await page.waitForTimeout(1000);
    }
  }
  return false;\<close>
  The loop is the recursion on \<open>attempts\<close>. Nothing bounds it when \<open>maxRetries\<close> is infinite, so
  the result is optional: \<open>None\<close> is a call that never returns.
\<close>

partial_function (option) navigate_loop ::
  "'w driver \<Rightarrow> string \<Rightarrow> jsnumber \<Rightarrow> int \<Rightarrow> 'w page \<Rightarrow> (bool res \<times> 'w page) option" where
  "navigate_loop drv url maxRetries attempts s =
     (if js_lt attempts maxRetries then
        (case page_goto drv url s of
           (Inr _, s1) \<Rightarrow> Some (Inr True, s1)
         | (Inl msg, s1) \<Rightarrow>
             (if js_ge (js_increment attempts) maxRetries then Some (Inr False, s1)
              else (case page_waitForTimeout drv 1000 s1 of
                      (_, s2) \<Rightarrow> navigate_loop drv url maxRetries (js_increment attempts) s2)))
      else Some (Inr False, s))"

declare navigate_loop.simps [code]

definition navigateWithRetry ::
  "'w driver \<Rightarrow> string \<Rightarrow> jsnumber \<Rightarrow> 'w page \<Rightarrow> (bool res \<times> 'w page) option" where
  "navigateWithRetry drv url maxRetries s = navigate_loop drv url maxRetries 0 s"

text \<open>
  The same loop at an integer retry count, where it always returns: the recursion is on
  \<open>maxRetries - attempts\<close>. Lemma \<open>navigate_loop_finite\<close> below shows that it is \<open>navigate_loop\<close>
  at every finite \<open>maxRetries\<close> up to \<open>2 ^ 53\<close>, rounded up to an integer; the callers, which all
  take the default \<^verbatim>\<open>maxRetries = 3\<close>, use it in this form (lemma \<open>navigateWithRetry_default\<close>).
\<close>

function navigate_loop_int :: "'w driver \<Rightarrow> string \<Rightarrow> int \<Rightarrow> int \<Rightarrow> ('w, bool) prog" where
  "navigate_loop_int drv url maxRetries attempts s =
     (if attempts < maxRetries then
        (case page_goto drv url s of
           (Inr _, s1) \<Rightarrow> (Inr True, s1)
         | (Inl msg, s1) \<Rightarrow>
             (if attempts + 1 \<ge> maxRetries then (Inr False, s1)
              else (case page_waitForTimeout drv 1000 s1 of
                      (_, s2) \<Rightarrow> navigate_loop_int drv url maxRetries (attempts + 1) s2)))
      else (Inr False, s))"
  by pat_completeness auto
termination
  by (relation "measure (\<lambda>(drv, url, maxRetries, attempts, s). nat (maxRetries - attempts))") auto

declare navigate_loop_int.simps [simp del]

definition navigateWithRetry_int :: "'w driver \<Rightarrow> string \<Rightarrow> int \<Rightarrow> ('w, bool) prog" where
  "navigateWithRetry_int drv url maxRetries = navigate_loop_int drv url maxRetries 0"

subsection \<open>waitForSelectorWithFallback\<close>

text \<open>
  \<^verbatim>\<open>for (const selector of selectors) {
    try {
      const element = await page.waitForSelector(selector, options);
      if (element) { return element; }
    } catch (error) { /* debug log, next fallback */ }
  }
  return null;\<close>
  The options carry a timeout only: no \<^verbatim>\<open>visible\<close> flag is passed.
\<close>

fun waitForSelectorWithFallback :: "'w driver \<Rightarrow> string list \<Rightarrow> ('w, handle option) prog" where
  "waitForSelectorWithFallback drv [] s = (Inr None, s)"
| "waitForSelectorWithFallback drv (selector # selectors) s =
     (case page_waitForSelector drv selector False s of
        (Inr (Some element), s1) \<Rightarrow> (Inr (Some element), s1)
      | (Inr None, s1) \<Rightarrow> waitForSelectorWithFallback drv selectors s1
      | (Inl msg, s1) \<Rightarrow> waitForSelectorWithFallback drv selectors s1)"

subsection \<open>takeScreenshot\<close>

text \<open>
  \<^verbatim>\<open>const filename = `linkedin-${name}-${timestamp}.png`;
  try { await page.screenshot({ path: filename }); return filename; }
  catch (error) { return ''; }\<close>
\<close>

definition takeScreenshot :: "'w driver \<Rightarrow> string \<Rightarrow> ('w, string) prog" where
  "takeScreenshot drv name s =
     (let filename = ''linkedin-'' @ name @ ''-'' @ d_timestamp drv (world s) @ ''.png''
      in tryCatch (andThen (page_screenshot drv filename) (\<lambda>_. ret filename)) (\<lambda>_. ret []) s)"

section \<open>src/constants/selectors.ts\<close>

definition SELECTORS_POST_CONTAINER :: string where
  "SELECTORS_POST_CONTAINER = ''.feed-shared-update-v2, .artdeco-card, article.ember-view''"

definition SELECTORS_LIKE_BUTTON :: string where
  \<open>SELECTORS_LIKE_BUTTON =
     ''button.react-button__trigger, button.option-component--like-button, '' @
     ''button[aria-label*="Like" i], button.artdeco-button[aria-label*="like" i]''\<close>

definition SELECTORS_COMMENT_BUTTON :: string where
  \<open>SELECTORS_COMMENT_BUTTON =
     ''button.comment-button, button[aria-label*="Comment" i], '' @
     ''button.artdeco-button[aria-label*="comment" i]''\<close>

definition SELECTORS_COMMENT_TEXTBOX :: string where
  \<open>SELECTORS_COMMENT_TEXTBOX =
     ''.comments-comment-box__text-input, div[role="textbox"], div.ql-editor, '' @
     ''textarea.comments-comment-box__text-editor''\<close>

definition SELECTORS_COMMENT_SUBMIT :: string where
  \<open>SELECTORS_COMMENT_SUBMIT =
     ''button.comments-comment-box__submit-button, button[type="submit"], '' @
     ''button.artdeco-button--primary''\<close>

definition WAIT_TIMES_ACTION :: nat where
  "WAIT_TIMES_ACTION = 2000"

section \<open>src/services/postService.ts\<close>

definition invalid_url_message :: string where
  \<open>invalid_url_message =
     ''Invalid LinkedIn post URL. Expected format includes "linkedin.com/feed/update/" '' @
     ''or "linkedin.com/posts/"''\<close>

definition navigation_failed_message :: string where
  "navigation_failed_message = ''Failed to navigate to the LinkedIn post after multiple attempts''"

text \<open>
  The steps the four operations share: validate the URL, navigate with the default three
  attempts, wait for the post container. The call \<^verbatim>\<open>navigateWithRetry(page, postUrl)\<close> leaves
  \<^verbatim>\<open>maxRetries\<close> at its default 3, where the loop is \<open>navigateWithRetry_int\<close>.
\<close>

definition openPost :: "'w driver \<Rightarrow> string \<Rightarrow> ('w, unit) prog" where
  "openPost drv postUrl =
     (if \<not> isValidLinkedInPostUrl postUrl then throw invalid_url_message
      else andThen (navigateWithRetry_int drv postUrl 3) (\<lambda>navigationSuccess.
        if \<not> navigationSuccess then throw navigation_failed_message
        else andThen (page_waitForSelector drv SELECTORS_POST_CONTAINER False) (\<lambda>_. ret ())))"

subsection \<open>likePost\<close>

definition likePost :: "'w driver \<Rightarrow> string \<Rightarrow> ('w, bool) prog" where
  "likePost drv postUrl =
     tryCatch
       (andThen (openPost drv postUrl) (\<lambda>_.
        andThen (waitForSelectorWithFallback drv (split_comma_space [] SELECTORS_LIKE_BUTTON))
          (\<lambda>likeButton.
             case likeButton of
               None \<Rightarrow>
                 andThen (takeScreenshot drv ''post-like-button-missing'') (\<lambda>_.
                   throw ''Like button not found. LinkedIn may have changed their UI.'')
             | Some button \<Rightarrow>
                 andThen (elem_isPressed drv button) (\<lambda>isAlreadyLiked.
                   if isAlreadyLiked then ret True
                   else
                     andThen (elem_click drv button) (\<lambda>_.
                     andThen (page_waitForTimeout drv WAIT_TIMES_ACTION) (\<lambda>_.
                     andThen (elem_isPressed drv button) (\<lambda>isNowLiked.
                       if \<not> isNowLiked then
                         andThen (takeScreenshot drv ''post-like-failed'') (\<lambda>_.
                           throw ''Like action did not register. The post might not be likeable.'')
                       else ret True)))))))
       (\<lambda>msg. throw (''Failed to like LinkedIn post: '' @ msg))"

subsection \<open>commentOnPost\<close>

definition commentOnPost :: "'w driver \<Rightarrow> string \<Rightarrow> string \<Rightarrow> ('w, bool) prog" where
  "commentOnPost drv postUrl comment =
     tryCatch
       (andThen (openPost drv postUrl) (\<lambda>_.
        andThen (waitForSelectorWithFallback drv (split_comma_space [] SELECTORS_COMMENT_BUTTON))
          (\<lambda>commentButton.
             case commentButton of
               None \<Rightarrow>
                 andThen (takeScreenshot drv ''post-comment-button-missing'') (\<lambda>_.
                   throw ''Comment button not found. LinkedIn may have changed their UI.'')
             | Some cb \<Rightarrow>
                 andThen (elem_click drv cb) (\<lambda>_.
                 andThen (page_waitForTimeout drv WAIT_TIMES_ACTION) (\<lambda>_.
                 andThen (waitForSelectorWithFallback drv
                            (split_comma_space [] SELECTORS_COMMENT_TEXTBOX))
                   (\<lambda>commentTextbox.
                      case commentTextbox of
                        None \<Rightarrow>
                          andThen (takeScreenshot drv ''post-comment-textbox-missing'') (\<lambda>_.
                            throw ''Comment textbox not found. LinkedIn may have changed their UI.'')
                      | Some tb \<Rightarrow>
                          andThen (elem_click drv tb) (\<lambda>_.
                          andThen (page_waitForTimeout drv 500) (\<lambda>_.
                          andThen (elem_type drv tb comment) (\<lambda>_.
                          andThen (page_waitForTimeout drv 1000) (\<lambda>_.
                          andThen (waitForSelectorWithFallback drv
                                     (split_comma_space [] SELECTORS_COMMENT_SUBMIT))
                            (\<lambda>submitButton.
                               case submitButton of
                                 None \<Rightarrow>
                                   andThen (takeScreenshot drv ''post-comment-submit-missing'') (\<lambda>_.
                                     throw (''Comment submit button not found. '' @
                                            ''LinkedIn may have changed their UI.''))
                               | Some sb \<Rightarrow>
                                   andThen (elem_click drv sb) (\<lambda>_.
                                   andThen (page_waitForTimeout drv (WAIT_TIMES_ACTION * 2)) (\<lambda>_.
                                     ret True)))))))))))))
       (\<lambda>msg. throw (''Failed to comment on LinkedIn post: '' @ msg))"

subsection \<open>sharePost\<close>

definition shareButtonSelectors :: "string list" where
  \<open>shareButtonSelectors =
     [''button.share-actions__primary-action'',
      ''button.artdeco-button[aria-label*="repost" i]'',
      ''button.artdeco-button[aria-label*="share" i]'',
      ''button[data-control-name="share"]'',
      ''.feed-shared-control-menu__item[aria-label*="share" i]'',
      ''.feed-shared-control-menu__item[aria-label*="repost" i]'']\<close>

definition shareDialogSelectors :: "string list" where
  \<open>shareDialogSelectors =
     [''.share-box__content'', ''.artdeco-modal__content'', ''div[role="dialog"]'',
      ''.share-creation-state'']\<close>

definition shareTextAreaSelectors :: "string list" where
  \<open>shareTextAreaSelectors =
     [''div[role="textbox"]'', ''.share-creation-state__textarea'', ''.ql-editor'',
      ''.mentions-texteditor__content'']\<close>

definition postButtonSelectors :: "string list" where
  \<open>postButtonSelectors =
     [''button.share-actions__primary-action'', ''button.artdeco-button--primary'',
      ''button[aria-label*="Post" i]'', ''button[aria-label*="Share" i]'',
      ''button.share-creation-state__submit'']\<close>

text \<open>
  \<^verbatim>\<open>if (shareText && shareText.trim() !== '') { ... if (shareTextArea) { click, type, wait } }\<close>
\<close>

definition enterShareText :: "'w driver \<Rightarrow> string \<Rightarrow> ('w, unit) prog" where
  "enterShareText drv shareText =
     (if shareText \<noteq> [] \<and> js_trim shareText \<noteq> [] then
        andThen (waitForSelectorWithFallback drv shareTextAreaSelectors) (\<lambda>shareTextArea.
          case shareTextArea of
            None \<Rightarrow> ret ()
          | Some ta \<Rightarrow>
              andThen (elem_click drv ta) (\<lambda>_.
              andThen (elem_type drv ta shareText) (\<lambda>_.
                page_waitForTimeout drv 1000)))
      else ret ())"

definition sharePost :: "'w driver \<Rightarrow> string \<Rightarrow> string \<Rightarrow> ('w, bool) prog" where
  "sharePost drv postUrl shareText =
     tryCatch
       (andThen (openPost drv postUrl) (\<lambda>_.
        andThen (waitForSelectorWithFallback drv shareButtonSelectors) (\<lambda>shareButton.
          case shareButton of
            None \<Rightarrow>
              andThen (takeScreenshot drv ''post-share-button-missing'') (\<lambda>_.
                throw ''Share button not found. LinkedIn may have changed their UI.'')
          | Some sb \<Rightarrow>
              andThen (elem_click drv sb) (\<lambda>_.
              andThen (page_waitForTimeout drv WAIT_TIMES_ACTION) (\<lambda>_.
              andThen (waitForSelectorWithFallback drv shareDialogSelectors) (\<lambda>shareDialog.
                case shareDialog of
                  None \<Rightarrow>
                    andThen (takeScreenshot drv ''post-share-dialog-missing'') (\<lambda>_.
                      throw ''Share dialog not found. LinkedIn may have changed their UI.'')
                | Some _ \<Rightarrow>
                    andThen (enterShareText drv shareText) (\<lambda>_.
                    andThen (waitForSelectorWithFallback drv postButtonSelectors) (\<lambda>postButton.
                      case postButton of
                        None \<Rightarrow>
                          andThen (takeScreenshot drv ''post-share-submit-missing'') (\<lambda>_.
                            throw (''Post/Share submit button not found. '' @
                                   ''LinkedIn may have changed their UI.''))
                      | Some pb \<Rightarrow>
                          andThen (elem_click drv pb) (\<lambda>_.
                          andThen (page_waitForTimeout drv (WAIT_TIMES_ACTION * 2)) (\<lambda>_.
                            ret True))))))))))
       (\<lambda>msg. throw (''Failed to share LinkedIn post: '' @ msg))"

subsection \<open>getPostInfo\<close>

text \<open>
  The extraction callback runs inside the page; it is the oracle \<open>d_extractPost\<close>. The
  catch block takes a screenshot before it rethrows.
\<close>

definition getPostInfo :: "'w driver \<Rightarrow> string \<Rightarrow> ('w, linkedInPost) prog" where
  "getPostInfo drv postUrl =
     tryCatch
       (andThen (openPost drv postUrl) (\<lambda>_. page_extractPost drv))
       (\<lambda>msg.
          andThen (takeScreenshot drv ''post-info-error'') (\<lambda>_.
            throw (''Failed to get LinkedIn post information: '' @ msg)))"

section \<open>The node: handlePostOperations\<close>

text \<open>
  The node file carries its own selector table and wait times, and its own inline
  handlers; \<^verbatim>\<open>execute\<close> dispatches to these, not to src/services.
\<close>

definition NODE_LIKE_BUTTON :: string where
  "NODE_LIKE_BUTTON = ''.react-button__trigger''"

definition NODE_COMMENT_BUTTON :: string where
  "NODE_COMMENT_BUTTON = ''.comment-button''"

definition NODE_COMMENT_TEXTBOX :: string where
  "NODE_COMMENT_TEXTBOX = ''.comments-comment-box__form-container .ql-editor''"

definition NODE_COMMENT_SUBMIT :: string where
  "NODE_COMMENT_SUBMIT = ''.comments-comment-box__submit-button''"

definition NODE_WAIT_ACTION :: nat where
  "NODE_WAIT_ACTION = 2000"

text \<open>
  What the host runtime hands to the node: the parameters of each item
  (\<^verbatim>\<open>this.getNodeParameter(name, i)\<close>), the number of input items and the
  continue-on-fail policy.
\<close>

record node_params =
  np_authentication :: string
  np_items :: nat
  np_resource :: "nat \<Rightarrow> string"
  np_operation :: "nat \<Rightarrow> string"
  np_url :: "nat \<Rightarrow> string"
  np_commentText :: "nat \<Rightarrow> string"
  np_continueOnFail :: bool

record action_result =
  ar_success :: bool
  ar_action :: string
  ar_url :: string
  ar_comment :: "string option"

definition handlePostOperations ::
  "'w driver \<Rightarrow> node_params \<Rightarrow> string \<Rightarrow> nat \<Rightarrow> ('w, action_result) prog" where
  "handlePostOperations drv params operation itemIndex =
     tryCatch
       (let url = np_url params itemIndex in
        andThen (page_goto drv url) (\<lambda>_.
          if operation = ''like'' then
            andThen (page_waitForSelector drv NODE_LIKE_BUTTON False) (\<lambda>_.
            andThen (page_click drv NODE_LIKE_BUTTON) (\<lambda>_.
            andThen (page_waitForTimeout drv NODE_WAIT_ACTION) (\<lambda>_.
              ret \<lparr>ar_success = True, ar_action = ''liked'', ar_url = url, ar_comment = None\<rparr>)))
          else if operation = ''comment'' then
            (let commentText = np_commentText params itemIndex in
             andThen (page_waitForSelector drv NODE_COMMENT_BUTTON False) (\<lambda>_.
             andThen (page_click drv NODE_COMMENT_BUTTON) (\<lambda>_.
             andThen (page_waitForTimeout drv NODE_WAIT_ACTION) (\<lambda>_.
             andThen (page_waitForSelector drv NODE_COMMENT_TEXTBOX False) (\<lambda>_.
             andThen (page_click drv NODE_COMMENT_TEXTBOX) (\<lambda>_.
             andThen (page_type drv NODE_COMMENT_TEXTBOX commentText) (\<lambda>_.
             andThen (page_waitForSelector drv NODE_COMMENT_SUBMIT False) (\<lambda>_.
             andThen (page_click drv NODE_COMMENT_SUBMIT) (\<lambda>_.
             andThen (page_waitForTimeout drv (NODE_WAIT_ACTION * 2)) (\<lambda>_.
               ret \<lparr>ar_success = True, ar_action = ''commented'', ar_url = url,
                    ar_comment = Some commentText\<rparr>))))))))))
          else if operation = ''share'' then throw ''Share operation not implemented yet''
          else throw (''Operation '' @ operation @ '' is not supported for post resource'')))
       (\<lambda>msg. throw (''Post operation '' @ [CHR 0x27] @ operation @ [CHR 0x27] @ '' failed: '' @ msg))"

section \<open>The node: login\<close>

definition NODE_LOGIN_USERNAME :: string where
  "NODE_LOGIN_USERNAME = ''#username''"

definition NODE_LOGIN_PASSWORD :: string where
  "NODE_LOGIN_PASSWORD = ''#password''"

definition NODE_LOGIN_SUBMIT :: string where
  \<open>NODE_LOGIN_SUBMIT = ''button[type="submit"]''\<close>

definition NODE_LOGIN_VERIFICATION_CODE :: string where
  "NODE_LOGIN_VERIFICATION_CODE = ''#input__phone_verification_pin''"

definition NODE_LOGIN_VERIFICATION_SUBMIT :: string where
  \<open>NODE_LOGIN_VERIFICATION_SUBMIT = ''button[type="submit"]''\<close>

definition NODE_SECURITY_CHALLENGE :: string where
  \<open>NODE_SECURITY_CHALLENGE =
     ''.form__input--floating, input[name="email-address"], input[name="security-code"], '' @
     ''input[id*="verification"]''\<close>

definition NODE_SECURITY_CHALLENGE_SUBMIT :: string where
  \<open>NODE_SECURITY_CHALLENGE_SUBMIT =
     ''button[type="submit"], button.form__submit, button[data-id="submit"], '' @
     ''button.signin__button, button.action-submit''\<close>

definition NODE_WAIT_NAVIGATION :: nat where
  "NODE_WAIT_NAVIGATION = 15000"

text \<open>
  \<^verbatim>\<open>await Promise.all([click, page.waitForNavigation(...)]).catch(async (error) => {
    await page.waitForTimeout(WAIT_TIMES.NAVIGATION); });\<close>
\<close>

definition submitAndSettle :: "'w driver \<Rightarrow> ('w, unit) prog \<Rightarrow> ('w, unit) prog" where
  "submitAndSettle drv click =
     tryCatch (promiseAll2 click (page_waitForNavigation drv))
              (\<lambda>_. page_waitForTimeout drv NODE_WAIT_NAVIGATION)"

text \<open>
  \<^verbatim>\<open>await Promise.all([click, page.waitForNavigation(...).catch(() => {})])\<close>
\<close>

definition clickAndWait :: "'w driver \<Rightarrow> ('w, unit) prog \<Rightarrow> ('w, unit) prog" where
  "clickAndWait drv click =
     promiseAll2 click (tryCatch (page_waitForNavigation drv) (\<lambda>_. ret ()))"

text \<open>
  \<^verbatim>\<open>const email = credentials?.username as string; await input.type(email, ...)\<close>:
  without credentials the text is \<^verbatim>\<open>undefined\<close> and typing it throws a TypeError before
  any key is sent.
\<close>

definition typeEmail :: "'w driver \<Rightarrow> handle \<Rightarrow> credentials option \<Rightarrow> ('w, unit) prog" where
  "typeEmail drv h creds =
     (case creds of
        None \<Rightarrow> throw ''text is not iterable''
      | Some c \<Rightarrow> elem_type drv h (cred_username c))"

subsection \<open>handle2FA\<close>

text \<open>
  \<^verbatim>\<open>try {
    if (!twoFactorCode) { throw new Error('Two-factor authentication code is required ...'); }
    const verificationInput = await page.waitForSelector(..., { timeout, visible: true });
    if (!verificationInput) { return; }
    await page.type(...); await Promise.all([...]).catch(...);
  } catch (error) { console.log('Error during 2FA handling:', error.message); }\<close>
  \<^verbatim>\<open>!twoFactorCode\<close> holds for \<^verbatim>\<open>undefined\<close> and for the empty string.
\<close>

definition handle2FA :: "'w driver \<Rightarrow> string option \<Rightarrow> ('w, unit) prog" where
  "handle2FA drv twoFactorCode =
     tryCatch
       (case twoFactorCode of
          None \<Rightarrow> throw ''Two-factor authentication code is required but not provided''
        | Some code \<Rightarrow>
            if code = [] then
              throw ''Two-factor authentication code is required but not provided''
            else
              andThen (page_waitForSelector drv NODE_LOGIN_VERIFICATION_CODE True)
                (\<lambda>verificationInput.
                   case verificationInput of
                     None \<Rightarrow> ret ()
                   | Some _ \<Rightarrow>
                       andThen (page_type drv NODE_LOGIN_VERIFICATION_CODE code) (\<lambda>_.
                         submitAndSettle drv (page_click drv NODE_LOGIN_VERIFICATION_SUBMIT))))
       (\<lambda>_. ret ())"

subsection \<open>handleSecurityChallenge\<close>

text \<open>The first selector of the list that matches is clicked; the result says whether one did.\<close>

fun clickFirstSubmit :: "'w driver \<Rightarrow> string list \<Rightarrow> ('w, bool) prog" where
  "clickFirstSubmit drv [] = ret False"
| "clickFirstSubmit drv (selector # selectors) =
     andThen (page_query drv selector) (\<lambda>submitButton.
       case submitButton of
         Some b \<Rightarrow> andThen (submitAndSettle drv (elem_click drv b)) (\<lambda>_. ret True)
       | None \<Rightarrow> clickFirstSubmit drv selectors)"

definition submitText :: "string option \<Rightarrow> bool" where
  "submitText buttonText =
     (case buttonText of
        None \<Rightarrow> False
      | Some txt \<Rightarrow>
          txt \<noteq> [] \<and>
          (js_includes (js_toLowerCase txt) ''submit'' \<or>
           js_includes (js_toLowerCase txt) ''continue'' \<or>
           js_includes (js_toLowerCase txt) ''next''))"

fun clickAnySubmit :: "'w driver \<Rightarrow> handle list \<Rightarrow> ('w, bool) prog" where
  "clickAnySubmit drv [] = ret False"
| "clickAnySubmit drv (button # anyButtons) =
     andThen (elem_textContent drv button) (\<lambda>buttonText.
       if submitText buttonText then
         andThen (clickAndWait drv (elem_click drv button)) (\<lambda>_. ret True)
       else clickAnySubmit drv anyButtons)"

definition handleSecurityChallenge :: "'w driver \<Rightarrow> ('w, unit) prog" where
  "handleSecurityChallenge drv =
     tryCatch
       (andThen (page_screenshot drv ''security-challenge-before.png'') (\<lambda>_.
        andThen (page_query drv NODE_SECURITY_CHALLENGE) (\<lambda>securityInput.
          case securityInput of
            None \<Rightarrow> ret ()
          | Some input \<Rightarrow>
              andThen (getCredentials drv) (\<lambda>credentials.
              andThen (elem_click drv input) (\<lambda>_.
              andThen (typeEmail drv input credentials) (\<lambda>_.
              andThen (clickFirstSubmit drv (split_comma_space [] NODE_SECURITY_CHALLENGE_SUBMIT))
                (\<lambda>submitButtonFound.
                   andThen
                     (if \<not> submitButtonFound then
                        andThen (page_queryAll drv ''button'') (\<lambda>anyButtons.
                        andThen (clickAnySubmit drv anyButtons) (\<lambda>buttonClicked.
                          if \<not> buttonClicked then
                            throw ''Could not find any button to submit the security challenge''
                          else ret ()))
                      else ret ())
                     (\<lambda>_. page_screenshot drv ''security-challenge-after.png''))))))))
       (\<lambda>msg. throw (''Security challenge handling failed: '' @ msg))"

subsection \<open>handleCheckpoint\<close>

definition checkpointButtonSelectors :: "string list" where
  \<open>checkpointButtonSelectors =
     [''button'', ''button[type="submit"]'', ''button.artdeco-button'',
      ''button.primary-action-button'', ''button.artdeco-button--primary'',
      ''button.form__submit'', ''a.primary-action-button'', ''input[type="submit"]'']\<close>

definition buttonTextOptions :: "string list" where
  "buttonTextOptions =
     [''Continue'', ''Verify'', ''Next'', ''Submit'', ''I Agree'', ''Approve'', ''Done'',
      ''Confirm'', ''Yes'', ''Allow'', ''Proceed'', ''Sign in'', ''Send code'']"

text \<open>
  \<^verbatim>\<open>for (const input of textInputs) {
    try { await input.click({ clickCount: 3 }); await input.type(email, { delay: 50 });
          await page.waitForTimeout(1000); } catch (err) { } }\<close>
\<close>

fun fillInputs :: "'w driver \<Rightarrow> credentials option \<Rightarrow> handle list \<Rightarrow> ('w, unit) prog" where
  "fillInputs drv creds [] = ret ()"
| "fillInputs drv creds (input # textInputs) =
     andThen
       (tryCatch
          (andThen (elem_click drv input) (\<lambda>_.
           andThen (typeEmail drv input creds) (\<lambda>_.
             page_waitForTimeout drv 1000)))
          (\<lambda>_. ret ()))
       (\<lambda>_. fillInputs drv creds textInputs)"

text \<open>
  \<^verbatim>\<open>const text = await page.evaluate(el => el.textContent?.trim(), button);
  if (text && text.toLowerCase().includes(buttonText.toLowerCase()))\<close>
\<close>

definition textMatches :: "string option \<Rightarrow> string \<Rightarrow> bool" where
  "textMatches textContent buttonText =
     (case textContent of
        None \<Rightarrow> False
      | Some raw \<Rightarrow>
          js_trim raw \<noteq> [] \<and>
          js_includes (js_toLowerCase (js_trim raw)) (js_toLowerCase buttonText))"

text \<open>
  The inner loop over the buttons, for one text option. The result is the flag
  \<^verbatim>\<open>buttonClicked\<close>. The \<^verbatim>\<open>break\<close> is reached only when the click, the wait and the
  screenshot all went through; a rejected click leaves the flag as it was and a rejected
  screenshot leaves it set, and in both cases the loop goes on with the next button.
\<close>

fun clickMatching :: "'w driver \<Rightarrow> string \<Rightarrow> bool \<Rightarrow> handle list \<Rightarrow> ('w, bool) prog" where
  "clickMatching drv buttonText buttonClicked [] = ret buttonClicked"
| "clickMatching drv buttonText buttonClicked (button # buttons) =
     andThen (elem_textContent drv button) (\<lambda>textContent.
       if textMatches textContent buttonText then
         (\<lambda>s. case clickAndWait drv (elem_click drv button) s of
                 (Inl _, s1) \<Rightarrow> clickMatching drv buttonText buttonClicked buttons s1
               | (Inr _, s1) \<Rightarrow>
                   (case andThen (page_waitForTimeout drv 3000) (\<lambda>_.
                           page_screenshot drv ''linkedin-checkpoint-after-action.png'') s1 of
                      (Inl _, s2) \<Rightarrow> clickMatching drv buttonText True buttons s2
                    | (Inr _, s2) \<Rightarrow> (Inr True, s2)))
       else clickMatching drv buttonText buttonClicked buttons)"

text \<open>
  \<^verbatim>\<open>for (const buttonText of buttonTextOptions) {
    const buttons = await page.$$('button, a.artdeco-button');
    for (const button of buttons) { ... }
    if (buttonClicked) break; }\<close>
\<close>

fun clickByText :: "'w driver \<Rightarrow> string list \<Rightarrow> ('w, bool) prog" where
  "clickByText drv [] = ret False"
| "clickByText drv (buttonText # options) =
     andThen (page_queryAll drv ''button, a.artdeco-button'') (\<lambda>buttons.
     andThen (clickMatching drv buttonText False buttons) (\<lambda>buttonClicked.
       if buttonClicked then ret True else clickByText drv options))"

text \<open>
  The generic fallback, for one selector: every enabled button is clicked in turn; the
  result is true when a click led away from the checkpoint, where the source returns.
\<close>

fun clickEach :: "'w driver \<Rightarrow> handle list \<Rightarrow> ('w, bool) prog" where
  "clickEach drv [] = ret False"
| "clickEach drv (button # buttons) =
     andThen (elem_isDisabled drv button) (\<lambda>isDisabled.
       if isDisabled then clickEach drv buttons
       else
         andThen (elem_click drv button) (\<lambda>_.
         andThen (page_waitForTimeout drv 2000) (\<lambda>_.
         (\<lambda>s. andThen
                 (page_screenshot drv
                    (''linkedin-checkpoint-after-click-'' @ d_timestamp drv (world s) @ ''.png''))
                 (\<lambda>_ s'. if \<not> js_includes (page_url drv s') ''checkpoint'' then (Inr True, s')
                          else clickEach drv buttons s') s))))"

text \<open>
  \<^verbatim>\<open>for (const selector of buttonSelectors) {
    try { const buttons = await page.$$(selector); ... } catch (err) { } }\<close>
\<close>

fun clickGeneric :: "'w driver \<Rightarrow> string list \<Rightarrow> ('w, bool) prog" where
  "clickGeneric drv [] = ret False"
| "clickGeneric drv (selector # selectors) =
     (\<lambda>s. case andThen (page_queryAll drv selector) (clickEach drv) s of
             (Inr True, s1) \<Rightarrow> (Inr True, s1)
           | (Inr False, s1) \<Rightarrow> clickGeneric drv selectors s1
           | (Inl _, s1) \<Rightarrow> clickGeneric drv selectors s1)"

text \<open>
  \<^verbatim>\<open>const headless = await this.getCredentials('linkedInBrowser')
    .then(cred => cred?.headless as boolean).catch(() => true);
  if (headless) { ... }\<close>
\<close>

definition checkpointHeadless :: "'w driver \<Rightarrow> ('w, bool) prog" where
  "checkpointHeadless drv =
     tryCatch
       (andThen (getCredentials drv) (\<lambda>cred.
          ret (case cred of None \<Rightarrow> False | Some c \<Rightarrow> cred_headless c = Some True)))
       (\<lambda>_. ret True)"

text \<open>
  One pass through the body of handleCheckpoint, up to its outcome: \<open>Passed\<close> where the
  source returns, \<open>Advanced\<close> where it calls itself, an error where it throws inside
  the \<^verbatim>\<open>try\<close>.
\<close>

datatype pass = Passed | Advanced

definition checkboxSelector :: string where
  \<open>checkboxSelector = ''input[type="checkbox"]''\<close>

definition textInputsSelector :: string where
  \<open>textInputsSelector = ''input[type="text"], input[type="email"], input[type="tel"]''\<close>

text \<open>
  The end of a pass: the tests on the final URL and, with no progress, the headless
  failure or the wait for a manual resolution.
\<close>

definition checkpointVerdict :: "'w driver \<Rightarrow> string \<Rightarrow> ('w, pass) prog" where
  "checkpointVerdict drv currentUrl s =
     (let finalUrl = page_url drv s in
      if js_includes finalUrl ''linkedin.com/feed'' \<or> js_includes finalUrl ''linkedin.com.home''
      then (Inr Passed, s)
      else if js_includes finalUrl ''checkpoint'' \<and> finalUrl \<noteq> currentUrl
      then (Inr Advanced, s)
      else
        andThen (page_screenshot drv ''linkedin-checkpoint-final.png'') (\<lambda>_.
        andThen (checkpointHeadless drv) (\<lambda>headless.
          if headless then
            throw (''Could not automatically handle LinkedIn checkpoint page. '' @
                   ''Try running with headless=false to manually approve the login.'')
          else
            andThen (page_waitForTimeout drv 30000) (\<lambda>_ s'.
              let newUrl = page_url drv s' in
              if js_includes newUrl ''linkedin.com/feed'' \<or>
                 js_includes newUrl ''linkedin.com/home'' \<or>
                 \<not> js_includes newUrl ''checkpoint''
              then (Inr Passed, s')
              else (Inl (''Even after waiting for user intervention, '' @
                         ''still stuck at LinkedIn checkpoint page.''), s')))) s)"

definition checkpointTail :: "'w driver \<Rightarrow> string \<Rightarrow> ('w, pass) prog" where
  "checkpointTail drv currentUrl =
     andThen (page_queryAll drv ''form, .verification-step, .security-verification'')
       (\<lambda>verificationOptions.
     andThen (if verificationOptions \<noteq> []
              then page_screenshot drv ''linkedin-checkpoint-verification-steps.png''
              else ret ()) (\<lambda>_.
     andThen (tryCatch
                (andThen (page_query drv checkboxSelector) (\<lambda>rememberDeviceCheckbox.
                   case rememberDeviceCheckbox of
                     None \<Rightarrow> ret ()
                   | Some cb \<Rightarrow> elem_click drv cb))
                (\<lambda>_. ret ())) (\<lambda>_. checkpointVerdict drv currentUrl)))"

definition checkpointPass :: "'w driver \<Rightarrow> ('w, pass) prog" where
  \<open>checkpointPass drv =
     andThen (page_screenshot drv ''linkedin-checkpoint.png'') (\<lambda>_ s0.
       let currentUrl = page_url drv s0 in
       andThen (page_content drv) (\<lambda>pageContent.
       andThen (page_title drv) (\<lambda>_.
       andThen (page_queryAll drv textInputsSelector)
         (\<lambda>textInputs.
       andThen (if textInputs \<noteq> []
                then andThen (getCredentials drv) (\<lambda>credentials.
                       fillInputs drv credentials textInputs)
                else ret ()) (\<lambda>_.
       andThen (clickByText drv buttonTextOptions) (\<lambda>buttonClicked.
       andThen (if \<not> buttonClicked then clickGeneric drv checkpointButtonSelectors
                else ret False) (\<lambda>passed.
         if passed then ret Passed else checkpointTail drv currentUrl)))))) s0)\<close>

text \<open>
  \<^verbatim>\<open>if (finalUrl.includes('checkpoint') && finalUrl !== currentUrl) {
    return await handleCheckpoint.call(this, page); }\<close>
  sits inside the \<^verbatim>\<open>try\<close>, so an error of the inner call is wrapped once more by the
  \<^verbatim>\<open>catch\<close> of the outer one. The source counts no depth. A call that never returns has
  the value \<open>None\<close>.
\<close>

definition checkpointFailed :: "string \<Rightarrow> string" where
  "checkpointFailed msg = ''Checkpoint handling failed: '' @ msg"

partial_function (option) handleCheckpoint ::
  "'w driver \<Rightarrow> 'w page \<Rightarrow> (unit res \<times> 'w page) option" where
  "handleCheckpoint drv s =
     (case checkpointPass drv s of
        (Inl msg, s1) \<Rightarrow> Some (Inl (checkpointFailed msg), s1)
      | (Inr Passed, s1) \<Rightarrow> Some (Inr (), s1)
      | (Inr Advanced, s1) \<Rightarrow>
          Option.bind (handleCheckpoint drv s1)
            (\<lambda>(r, s2). Some (case r of Inl msg \<Rightarrow> Inl (checkpointFailed msg) | Inr u \<Rightarrow> Inr u, s2)))"

declare handleCheckpoint.simps [code]

subsection \<open>loginToLinkedIn\<close>

text \<open>
  The part of the body before the final URL test. Its result is the URL read after the
  security-challenge step.
\<close>

definition submitCredentials :: "'w driver \<Rightarrow> ('w, string) prog" where
  "submitCredentials drv =
     andThen (getCredentials drv) (\<lambda>credentials.
       case credentials of
         None \<Rightarrow> throw ''No LinkedIn browser credentials provided''
       | Some c \<Rightarrow>
           andThen (page_goto drv ''https://www.linkedin.com/login'') (\<lambda>_.
           andThen (page_waitForSelector drv NODE_LOGIN_USERNAME False) (\<lambda>usernameSelector.
             case usernameSelector of
               None \<Rightarrow>
                 throw (''LinkedIn login form not found. '' @
                        ''LinkedIn may have changed their login page.'')
             | Some _ \<Rightarrow>
                 andThen (page_type drv NODE_LOGIN_USERNAME (cred_username c)) (\<lambda>_.
                 andThen (page_type drv NODE_LOGIN_PASSWORD (cred_password c)) (\<lambda>_.
                 andThen (submitAndSettle drv (page_click drv NODE_LOGIN_SUBMIT)) (\<lambda>_.
                 andThen (page_screenshot drv ''linkedin-login-debug.png'') (\<lambda>_.
                 andThen (if cred_use2FA c then handle2FA drv (cred_twoFactorCode c)
                          else ret ()) (\<lambda>_.
                 andThen (handleSecurityChallenge drv) (\<lambda>_ s.
                   (Inr (page_url drv s), s))))))))))"

text \<open>
  \<^verbatim>\<open>catch (error) { await page.screenshot({ path: 'linkedin-login-failure.png' });
    throw new Error(`LinkedIn login failed: ${error.message}`); }\<close>
\<close>

definition loginFailed :: "'w driver \<Rightarrow> string \<Rightarrow> ('w, unit) prog" where
  "loginFailed drv msg =
     andThen (page_screenshot drv ''linkedin-login-failure.png'') (\<lambda>_.
       throw (''LinkedIn login failed: '' @ msg))"

definition loginToLinkedIn :: "'w driver \<Rightarrow> 'w page \<Rightarrow> (unit res \<times> 'w page) option" where
  "loginToLinkedIn drv s =
     (case submitCredentials drv s of
        (Inl msg, s1) \<Rightarrow> Some (loginFailed drv msg s1)
      | (Inr currentUrl, s1) \<Rightarrow>
          if js_includes currentUrl ''linkedin.com/feed'' \<or>
             js_includes currentUrl ''linkedin.com/home'' \<or>
             js_includes currentUrl ''linkedin.com/checkpoint/lg/login-submit''
          then Some (Inr (), s1)
          else if js_includes currentUrl ''linkedin.com/checkpoint'' then
            (case handleCheckpoint drv s1 of
               None \<Rightarrow> None
             | Some (Inl msg, s2) \<Rightarrow> Some (loginFailed drv msg s2)
             | Some (Inr u, s2) \<Rightarrow> Some (Inr (), s2))
          else Some (loginFailed drv (''Login might have failed. Current URL: '' @ currentUrl) s1))"

section \<open>The node: execute\<close>

text \<open>
  \<^verbatim>\<open>const headless = credentials.headless as boolean || true;\<close>
  The credential field is declared boolean; it is \<open>None\<close> when the stored object has no
  such field. \<^verbatim>\<open>a || b\<close> is \<open>a\<close> when \<open>a\<close> is truthy and \<open>b\<close> otherwise.
\<close>

definition js_or :: "bool option \<Rightarrow> bool \<Rightarrow> bool" where
  "js_or a b = (case a of Some True \<Rightarrow> True | _ \<Rightarrow> b)"

definition launchHeadless :: "credentials \<Rightarrow> bool" where
  "launchHeadless credentials = js_or (cred_headless credentials) True"

text \<open>
  The browser is a resource of \<^verbatim>\<open>execute\<close> alone: the handlers receive the page, never
  the browser. Its life cycle is recorded twice: in the trace, where each browser call
  stands among the page calls made before and after it, and apart from the trace, in a
  log that only \<^verbatim>\<open>execute\<close> writes. A browser call acts on the world as the driver says.
  \<open>se_browser\<close> is the variable \<^verbatim>\<open>browser\<close>, defined once \<^verbatim>\<open>puppeteer.launch\<close> has resolved.
\<close>

record 'w session =
  se_page :: "'w page"
  se_lifecycle :: "(lifecycle \<times> answer) list"
  se_browser :: bool

definition outcome :: "unit res \<Rightarrow> answer" where
  "outcome r = (case r of Inl msg \<Rightarrow> Rejected msg | Inr _ \<Rightarrow> Resolved)"

definition browserCall ::
  "lifecycle \<Rightarrow> ('w \<Rightarrow> unit res \<times> 'w) \<Rightarrow> 'w session \<Rightarrow> unit res \<times> 'w session" where
  "browserCall c f se =
     (case f (world (se_page se)) of
        (r, w') \<Rightarrow>
          (r, se\<lparr>se_page := \<lparr>world = w',
                              trace = trace (se_page se) @ [(Browser c, outcome r)]\<rparr>,
                 se_lifecycle := se_lifecycle se @ [(c, outcome r)]\<rparr>))"

definition onPage :: "('w page \<Rightarrow> ('a res \<times> 'w page) option) \<Rightarrow> 'w session \<Rightarrow>
    ('a res \<times> 'w session) option" where
  "onPage p se =
     (case p (se_page se) of
        None \<Rightarrow> None
      | Some (r, pg) \<Rightarrow> Some (r, se\<lparr>se_page := pg\<rparr>))"

text \<open>
  handleProfileOperations and handleFeedOperations are not looked into: they are
  arbitrary programs on the page, which may throw and may not return.
\<close>

record ('w, 'j) handlers =
  handleProfileOperations :: "string \<Rightarrow> nat \<Rightarrow> 'w page \<Rightarrow> ('j res \<times> 'w page) option"
  handleFeedOperations :: "string \<Rightarrow> nat \<Rightarrow> 'w page \<Rightarrow> ('j res \<times> 'w page) option"

datatype 'j json = PostJson action_result | OtherJson 'j | ErrorJson string

text \<open>
  The body of the inner \<^verbatim>\<open>try\<close> for item \<open>i\<close>. Inside the loop the page is defined
  whenever the authentication is \<^verbatim>\<open>browser\<close>, since any earlier failure has left the
  outer \<^verbatim>\<open>try\<close>. With an authentication that is neither \<^verbatim>\<open>browser\<close> nor \<^verbatim>\<open>apiKey\<close>
  nothing is pushed and nothing is thrown.
\<close>

definition processItem ::
  "'w driver \<Rightarrow> node_params \<Rightarrow> ('w, 'j) handlers \<Rightarrow> nat \<Rightarrow> 'w page \<Rightarrow>
     ('j json option res \<times> 'w page) option" where
  "processItem drv params hs i pg =
     (let resource = np_resource params i; operation = np_operation params i in
      if np_authentication params = ''browser'' then
        if resource = ''post'' then
          (case handlePostOperations drv params operation i pg of
             (Inl msg, pg1) \<Rightarrow> Some (Inl msg, pg1)
           | (Inr result, pg1) \<Rightarrow> Some (Inr (Some (PostJson result)), pg1))
        else if resource = ''profile'' then
          (case handleProfileOperations hs operation i pg of
             None \<Rightarrow> None
           | Some (Inl msg, pg1) \<Rightarrow> Some (Inl msg, pg1)
           | Some (Inr result, pg1) \<Rightarrow> Some (Inr (Some (OtherJson result)), pg1))
        else if resource = ''feed'' then
          (case handleFeedOperations hs operation i pg of
             None \<Rightarrow> None
           | Some (Inl msg, pg1) \<Rightarrow> Some (Inl msg, pg1)
           | Some (Inr result, pg1) \<Rightarrow> Some (Inr (Some (OtherJson result)), pg1))
        else Some (Inl (''Resource '' @ resource @ '' is not supported''), pg)
      else if np_authentication params = ''apiKey'' then
        Some (Inl ''API-based operations are not implemented yet'', pg)
      else Some (Inr None, pg))"

text \<open>
  \<^verbatim>\<open>for (let i = 0; i < items.length; i++) {
    try { ... returnData.push({ json: result, pairedItem: { item: i } }); }
    catch (error) {
      if (this.continueOnFail()) {
        returnData.push({ json: { error: error.message }, pairedItem: { item: i } });
        continue; }
      throw error; } }\<close>
\<close>

fun processItems ::
  "'w driver \<Rightarrow> node_params \<Rightarrow> ('w, 'j) handlers \<Rightarrow> nat list \<Rightarrow> ('j json \<times> nat) list \<Rightarrow>
     'w page \<Rightarrow> (('j json \<times> nat) list res \<times> 'w page) option" where
  "processItems drv params hs [] returnData pg = Some (Inr returnData, pg)"
| "processItems drv params hs (i # items) returnData pg =
     (case processItem drv params hs i pg of
        None \<Rightarrow> None
      | Some (Inr None, pg1) \<Rightarrow> processItems drv params hs items returnData pg1
      | Some (Inr (Some result), pg1) \<Rightarrow>
          processItems drv params hs items (returnData @ [(result, i)]) pg1
      | Some (Inl msg, pg1) \<Rightarrow>
          if np_continueOnFail params
          then processItems drv params hs items (returnData @ [(ErrorJson msg, i)]) pg1
          else Some (Inl msg, pg1))"

text \<open>
  \<^verbatim>\<open>if (authentication === 'browser') {
    const credentials = await this.getCredentials('linkedInBrowser');
    const headless = credentials.headless as boolean || true;
    browser = await puppeteer.launch({ headless, ... });
    page = await browser.newPage();
    await loginToLinkedIn.call(this, page); }\<close>
  Reading \<^verbatim>\<open>credentials.headless\<close> of an undefined object throws a TypeError.
\<close>

definition typeError_headless :: string where
  "typeError_headless = ''Cannot read properties of undefined (reading 'headless')''"

definition openSession :: "'w driver \<Rightarrow> 'w session \<Rightarrow> (unit res \<times> 'w session) option" where
  "openSession drv se =
     (case onPage (\<lambda>pg. Some (getCredentials drv pg)) se of
        None \<Rightarrow> None
      | Some (Inl msg, se1) \<Rightarrow> Some (Inl msg, se1)
      | Some (Inr None, se1) \<Rightarrow>
          Some (Inl typeError_headless, se1)
      | Some (Inr (Some credentials), se1) \<Rightarrow>
          (let headless = launchHeadless credentials in
           case browserCall (Launch headless) (d_launch drv headless) se1 of
             (Inl msg, se2) \<Rightarrow> Some (Inl msg, se2)
           | (Inr _, se2) \<Rightarrow>
               (case browserCall NewPage (d_newPage drv) (se2\<lparr>se_browser := True\<rparr>) of
                  (Inl msg, se3) \<Rightarrow> Some (Inl msg, se3)
                | (Inr _, se3) \<Rightarrow> onPage (loginToLinkedIn drv) se3)))"

text \<open>The outer \<^verbatim>\<open>try\<close> block, up to \<^verbatim>\<open>return [returnData]\<close>.\<close>

definition executeBody ::
  "'w driver \<Rightarrow> node_params \<Rightarrow> ('w, 'j) handlers \<Rightarrow> 'w session \<Rightarrow>
     (('j json \<times> nat) list res \<times> 'w session) option" where
  "executeBody drv params hs se =
     (case (if np_authentication params = ''browser'' then openSession drv se
            else Some (Inr (), se)) of
        None \<Rightarrow> None
      | Some (Inl msg, se1) \<Rightarrow> Some (Inl msg, se1)
      | Some (Inr _, se1) \<Rightarrow>
          (case onPage (processItems drv params hs [0..<np_items params] []) se1 of
             None \<Rightarrow> None
           | Some (Inl msg, se2) \<Rightarrow> Some (Inl msg, se2)
           | Some (Inr returnData, se2) \<Rightarrow>
               if se_browser se2 then
                 (case browserCall Close (d_close drv) se2 of
                    (Inl msg, se3) \<Rightarrow> Some (Inl msg, se3)
                  | (Inr _, se3) \<Rightarrow> Some (Inr returnData, se3))
               else Some (Inr returnData, se2)))"

text \<open>
  \<^verbatim>\<open>try { ... } catch (error) { if (browser) { await browser.close(); } throw error; }\<close>
  An error of the close in the catch block replaces the original one.
\<close>

definition execute ::
  "'w driver \<Rightarrow> node_params \<Rightarrow> ('w, 'j) handlers \<Rightarrow> 'w page \<Rightarrow>
     (('j json \<times> nat) list res \<times> 'w session) option" where
  "execute drv params hs pg =
     (case executeBody drv params hs \<lparr>se_page = pg, se_lifecycle = [], se_browser = False\<rparr> of
        None \<Rightarrow> None
      | Some (Inr returnData, se1) \<Rightarrow> Some (Inr returnData, se1)
      | Some (Inl msg, se1) \<Rightarrow>
          if se_browser se1 then
            (case browserCall Close (d_close drv) se1 of
               (Inl msg', se2) \<Rightarrow> Some (Inl msg', se2)
             | (Inr _, se2) \<Rightarrow> Some (Inl msg, se2))
          else Some (Inl msg, se1))"

section \<open>A mock page\<close>

text \<open>
  A concrete world on which the model runs: a page with a URL, a number of page loads that
  will still fail, a DOM given as the element each selector matches, the hidden, disabled
  and pressed elements, the URL a click on an element leads to, the screenshot files
  written, the stored credentials, and whether a browser is open. A click on an element
  toggles its pressed state when the page registers clicks. As in Puppeteer, \<^verbatim>\<open>waitForSelector\<close>
  resolves as soon as the element is in the DOM, and insists on visibility only when the
  \<^verbatim>\<open>visible\<close> option is set; it rejects with a timeout otherwise.
\<close>

record mock =
  mk_url :: string
  mk_failing_loads :: nat
  mk_dom :: "(string \<times> handle) list"
  mk_hidden :: "handle list"
  mk_disabled :: "handle list"
  mk_pressed :: "handle list"
  mk_registers :: bool
  mk_links :: "(handle \<times> string) list"
  mk_files :: "string list"
  mk_creds :: "credentials option"
  mk_open :: bool
  mk_close_rejects :: nat

definition mock_toggle :: "handle \<Rightarrow> mock \<Rightarrow> mock" where
  "mock_toggle h w =
     (if mk_registers w then
        w\<lparr>mk_pressed := (if h \<in> set (mk_pressed w) then removeAll h (mk_pressed w)
                          else h # mk_pressed w)\<rparr>
      else w)"

definition mock_follow :: "handle \<Rightarrow> mock \<Rightarrow> mock" where
  "mock_follow h w = (case map_of (mk_links w) h of None \<Rightarrow> w | Some url \<Rightarrow> w\<lparr>mk_url := url\<rparr>)"

definition mock_click :: "handle \<Rightarrow> mock \<Rightarrow> mock" where
  "mock_click h w = mock_follow h (mock_toggle h w)"

definition mock_post :: linkedInPost where
  "mock_post = \<lparr>lp_authorName = [], lp_authorHeadline = [], lp_authorProfileUrl = [],
                lp_postText = [], lp_postDate = [], lp_isLiked = False, lp_postUrl = []\<rparr>"

definition mock_driver :: "mock driver" where
  "mock_driver =
     \<lparr>d_goto = (\<lambda>url w.
        if mk_failing_loads w > 0
        then (Inl ''Navigation timeout exceeded'', w\<lparr>mk_failing_loads := mk_failing_loads w - 1\<rparr>)
        else (Inr (), w\<lparr>mk_url := url\<rparr>)),
      d_waitForSelector = (\<lambda>sel vis w.
        case map_of (mk_dom w) sel of
          None \<Rightarrow> (Inl ''waiting for selector failed: timeout exceeded'', w)
        | Some h \<Rightarrow>
            if vis \<and> h \<in> set (mk_hidden w)
            then (Inl ''waiting for selector failed: timeout exceeded'', w)
            else (Inr (Some h), w)),
      d_waitForTimeout = (\<lambda>ms w. w),
      d_waitForNavigation = (\<lambda>w. (Inr (), w)),
      d_screenshot = (\<lambda>path w. (Inr (), w\<lparr>mk_files := mk_files w @ [path]\<rparr>)),
      d_timestamp = (\<lambda>w. ''0''),
      d_url = mk_url,
      d_content = (\<lambda>w. (Inr [], w)),
      d_title = (\<lambda>w. (Inr [], w)),
      d_query = (\<lambda>sel w. (Inr (map_of (mk_dom w) sel), w)),
      d_queryAll = (\<lambda>sel w. (Inr (case map_of (mk_dom w) sel of None \<Rightarrow> [] | Some h \<Rightarrow> [h]), w)),
      d_pageClick = (\<lambda>sel w.
        case map_of (mk_dom w) sel of
          None \<Rightarrow> (Inl ''No node found for selector'', w)
        | Some h \<Rightarrow> (Inr (), mock_click h w)),
      d_pageType = (\<lambda>sel txt w. (Inr (), w)),
      d_click = (\<lambda>h w. (Inr (), mock_click h w)),
      d_type = (\<lambda>h txt w. (Inr (), w)),
      d_isPressed = (\<lambda>h w. (Inr (h \<in> set (mk_pressed w)), w)),
      d_isDisabled = (\<lambda>h w. (Inr (h \<in> set (mk_disabled w)), w)),
      d_textContent = (\<lambda>h w. (Inr None, w)),
      d_extractPost = (\<lambda>w. (Inr mock_post, w)),
      d_getCredentials = (\<lambda>w. (Inr (mk_creds w), w)),
      d_launch = (\<lambda>headless w. (Inr (), w\<lparr>mk_open := True\<rparr>)),
      d_newPage = (\<lambda>w. (Inr (), w)),
      d_close = (\<lambda>w.
        if mk_close_rejects w > 0
        then (Inl ''Protocol error: Target closed'', w\<lparr>mk_close_rejects := mk_close_rejects w - 1\<rparr>)
        else (Inr (), w\<lparr>mk_open := False\<rparr>))\<rparr>"

definition mock_page :: "mock \<Rightarrow> mock page" where
  "mock_page w = \<lparr>world = w, trace = []\<rparr>"

definition blank :: mock where
  "blank = \<lparr>mk_url = ''about:blank'', mk_failing_loads = 0, mk_dom = [], mk_hidden = [],
            mk_disabled = [], mk_pressed = [], mk_registers = True, mk_links = [],
            mk_files = [], mk_creds = None, mk_open = False, mk_close_rejects = 0\<rparr>"

text \<open>Pages used below.\<close>

definition two_buttons :: mock where
  "two_buttons = blank\<lparr>mk_dom := [(''#a'', 1), (''#b'', 2)], mk_hidden := [1]\<rparr>"

definition post_url :: string where
  "post_url = ''https://www.linkedin.com/posts/123''"

definition post_dom :: "(string \<times> handle) list" where
  "post_dom =
     [(''.react-button__trigger'', 7), (''button.react-button__trigger'', 7),
      (SELECTORS_POST_CONTAINER, 3)]"

definition liked_post :: mock where
  "liked_post = blank\<lparr>mk_dom := post_dom, mk_pressed := [7]\<rparr>"

definition unresponsive_post :: mock where
  "unresponsive_post = blank\<lparr>mk_dom := post_dom, mk_registers := False\<rparr>"

definition like_params :: node_params where
  "like_params =
     \<lparr>np_authentication = ''browser'', np_items = 1, np_resource = (\<lambda>i. ''post''),
      np_operation = (\<lambda>i. ''like''), np_url = (\<lambda>i. post_url),
      np_commentText = (\<lambda>i. []), np_continueOnFail = False\<rparr>"

definition login_creds :: credentials where
  "login_creds = \<lparr>cred_username = ''user@example.test'', cred_password = ''secret'',
                  cred_use2FA = True, cred_twoFactorCode = None, cred_headless = Some False\<rparr>"

text \<open>
  A login surface whose submit button leads to the feed, with a post to like. The stored
  credentials enable two-factor authentication, carry no code, and ask for a visible
  browser.
\<close>

definition login_surface :: mock where
  "login_surface =
     blank\<lparr>mk_dom := [(NODE_LOGIN_USERNAME, 1), (NODE_LOGIN_PASSWORD, 2),
                      (NODE_LOGIN_SUBMIT, 3)] @ post_dom,
           mk_links := [(3, ''https://www.linkedin.com/feed/'')],
           mk_creds := Some login_creds\<rparr>"

definition no_handlers :: "(mock, unit) handlers" where
  "no_handlers =
     \<lparr>handleProfileOperations = (\<lambda>operation i pg. Some (Inl ''profile page unavailable'', pg)),
      handleFeedOperations = (\<lambda>operation i pg. Some (Inr (), pg))\<rparr>"

text \<open>A batch of three items: a like, a profile operation that fails, a feed operation.\<close>

definition batch_params :: node_params where
  "batch_params =
     \<lparr>np_authentication = ''browser'', np_items = 3,
      np_resource = (\<lambda>i. if i = 0 then ''post'' else if i = 1 then ''profile'' else ''feed''),
      np_operation = (\<lambda>i. if i = 0 then ''like'' else if i = 1 then ''getInfo'' else ''list''),
      np_url = (\<lambda>i. post_url), np_commentText = (\<lambda>i. []), np_continueOnFail = True\<rparr>"

text \<open>The same batch under the authentication that launches no browser.\<close>

definition api_params :: node_params where
  "api_params = batch_params\<lparr>np_authentication := ''apiKey''\<rparr>"

section \<open>A mock checkpoint surface\<close>

text \<open>
  A verification surface with one button labelled Continue. The page is at one of two
  checkpoint URLs; a click on the button moves it to the other one while the budget
  lasts, and changes nothing once the budget is used up. Without a budget the surface
  re-presents a checkpoint under a changed URL for ever. The stored credentials ask for
  a headless browser.
\<close>

record ck =
  ck_flip :: bool
  ck_budget :: "nat option"

definition ck_url :: "ck \<Rightarrow> string" where
  "ck_url w =
     (if ck_flip w then ''https://www.linkedin.com/checkpoint/challenge/B''
      else ''https://www.linkedin.com/checkpoint/challenge/A'')"

definition ck_advance :: "ck \<Rightarrow> ck" where
  "ck_advance w =
     (case ck_budget w of
        None \<Rightarrow> w\<lparr>ck_flip := \<not> ck_flip w\<rparr>
      | Some 0 \<Rightarrow> w
      | Some (Suc r) \<Rightarrow> \<lparr>ck_flip = \<not> ck_flip w, ck_budget = Some r\<rparr>)"

definition ck_creds :: credentials where
  "ck_creds = \<lparr>cred_username = ''user@example.test'', cred_password = ''secret'',
               cred_use2FA = False, cred_twoFactorCode = None, cred_headless = Some True\<rparr>"

definition checkpoint_driver :: "ck driver" where
  "checkpoint_driver =
     \<lparr>d_goto = (\<lambda>url w. (Inr (), w)),
      d_waitForSelector = (\<lambda>sel vis w. (Inl ''waiting for selector failed: timeout exceeded'', w)),
      d_waitForTimeout = (\<lambda>ms w. w),
      d_waitForNavigation = (\<lambda>w. (Inr (), w)),
      d_screenshot = (\<lambda>path w. (Inr (), w)),
      d_timestamp = (\<lambda>w. ''0''),
      d_url = ck_url,
      d_content = (\<lambda>w. (Inr [], w)),
      d_title = (\<lambda>w. (Inr [], w)),
      d_query = (\<lambda>sel w. (Inr None, w)),
      d_queryAll = (\<lambda>sel w. (Inr (if sel = ''button, a.artdeco-button'' then [0] else []), w)),
      d_pageClick = (\<lambda>sel w. (Inl ''No node found for selector'', w)),
      d_pageType = (\<lambda>sel txt w. (Inr (), w)),
      d_click = (\<lambda>h w. (Inr (), ck_advance w)),
      d_type = (\<lambda>h txt w. (Inr (), w)),
      d_isPressed = (\<lambda>h w. (Inr False, w)),
      d_isDisabled = (\<lambda>h w. (Inr False, w)),
      d_textContent = (\<lambda>h w. (Inr (Some ''Continue''), w)),
      d_extractPost = (\<lambda>w. (Inr mock_post, w)),
      d_getCredentials = (\<lambda>w. (Inr (Some ck_creds), w)),
      d_launch = (\<lambda>headless w. (Inr (), w)),
      d_newPage = (\<lambda>w. (Inr (), w)),
      d_close = (\<lambda>w. (Inr (), w))\<rparr>"

definition ck_page :: "bool \<Rightarrow> nat option \<Rightarrow> ck page" where
  "ck_page b budget = \<lparr>world = \<lparr>ck_flip = b, ck_budget = budget\<rparr>, trace = []\<rparr>"

definition headless_failure :: string where
  "headless_failure =
     ''Could not automatically handle LinkedIn checkpoint page. '' @
     ''Try running with headless=false to manually approve the login.''"

section \<open>Specification-level notions\<close>

text \<open>
  The trace of \<open>n\<close> failed page loads, each followed by the fixed one-second delay.
\<close>

definition failed_attempts :: "string \<Rightarrow> string list \<Rightarrow> (call \<times> answer) list" where
  "failed_attempts url msgs =
     concat (map (\<lambda>m. [(Goto url, Rejected m), (WaitForTimeout 1000, Resolved)]) msgs)"

text \<open>
  The resolver as the specification words it, on the mock page: the element of the first
  candidate that is present, visible and enabled.
\<close>

definition spec_interactable :: "mock \<Rightarrow> string \<Rightarrow> bool" where
  "spec_interactable w sel =
     (case map_of (mk_dom w) sel of
        None \<Rightarrow> False
      | Some h \<Rightarrow> h \<notin> set (mk_hidden w) \<and> h \<notin> set (mk_disabled w))"

definition spec_resolve :: "mock \<Rightarrow> string list \<Rightarrow> handle option" where
  "spec_resolve w candidates =
     (case find (spec_interactable w) candidates of
        None \<Rightarrow> None
      | Some sel \<Rightarrow> map_of (mk_dom w) sel)"

text \<open>
  The test that guards the recursive call of handleCheckpoint, on the final URL of a pass
  and the URL read at its start: the two tests for the feed come first in the source and
  end the pass, then \<^verbatim>\<open>finalUrl.includes('checkpoint') && finalUrl !== currentUrl\<close>.
\<close>

definition recursion_condition :: "string \<Rightarrow> string \<Rightarrow> bool" where
  "recursion_condition finalUrl currentUrl =
     (\<not> js_includes finalUrl ''linkedin.com/feed'' \<and>
      \<not> js_includes finalUrl ''linkedin.com.home'' \<and>
      js_includes finalUrl ''checkpoint'' \<and> finalUrl \<noteq> currentUrl)"

text \<open>
  The page after \<open>n\<close> passes of handleCheckpoint that each ended in the recursive call;
  \<open>None\<close> when one of them did not.
\<close>

fun advance :: "'w driver \<Rightarrow> nat \<Rightarrow> 'w page \<Rightarrow> 'w page option" where
  "advance drv 0 s = Some s"
| "advance drv (Suc n) s =
     (case checkpointPass drv s of
        (Inr Advanced, s1) \<Rightarrow> advance drv n s1
      | (Inr Passed, s1) \<Rightarrow> None
      | (Inl msg, s1) \<Rightarrow> None)"

text \<open>
  On the life cycle of a browser: the number of close calls, the number of close calls
  that resolved, and whether a launch resolved.
\<close>

definition closes :: "(lifecycle \<times> answer) list \<Rightarrow> nat" where
  "closes lc = length (filter (\<lambda>e. fst e = Close) lc)"

definition resolved_closes :: "(lifecycle \<times> answer) list \<Rightarrow> nat" where
  "resolved_closes lc = length (filter (\<lambda>e. e = (Close, Resolved)) lc)"

definition launched :: "(lifecycle \<times> answer) list \<Rightarrow> bool" where
  "launched lc = ((Launch True, Resolved) \<in> set lc \<or> (Launch False, Resolved) \<in> set lc)"

section \<open>Properties\<close>

lemmas driver_call_defs =
  page_goto_def page_waitForSelector_def page_waitForTimeout_def page_waitForNavigation_def
  page_screenshot_def page_url_def page_content_def page_title_def page_query_def
  page_queryAll_def page_click_def page_type_def elem_click_def elem_type_def
  elem_isPressed_def elem_isDisabled_def elem_textContent_def page_extractPost_def
  getCredentials_def perform_def

lemmas prog_defs = ret_def throw_def andThen_def tryCatch_def

subsection \<open>Substring test\<close>

lemma startsWith_iff: "startsWith xs pat \<longleftrightarrow> (\<exists>b. xs = pat @ b)"
  by (induction xs pat rule: startsWith.induct) auto

lemma js_includes_iff: "js_includes xs pat \<longleftrightarrow> (\<exists>a b. xs = a @ pat @ b)"
proof (induction xs)
  case Nil
  then show ?case by auto
next
  case (Cons c cs)
  show ?case
  proof
    assume "js_includes (c # cs) pat"
    then consider "startsWith (c # cs) pat" | "js_includes cs pat" by auto
    then show "\<exists>a b. c # cs = a @ pat @ b"
    proof cases
      case 1
      then obtain b where "c # cs = pat @ b" by (auto simp: startsWith_iff)
      then have "c # cs = [] @ pat @ b" by simp
      then show ?thesis by blast
    next
      case 2
      then obtain a b where "cs = a @ pat @ b" using Cons.IH by blast
      then have "c # cs = (c # a) @ pat @ b" by simp
      then show ?thesis by blast
    qed
  next
    assume "\<exists>a b. c # cs = a @ pat @ b"
    then obtain a b where ab: "c # cs = a @ pat @ b" by blast
    show "js_includes (c # cs) pat"
    proof (cases a)
      case Nil
      with ab have "startsWith (c # cs) pat" by (auto simp: startsWith_iff)
      then show ?thesis by simp
    next
      case (Cons a0 as)
      with ab have "cs = as @ pat @ b" by simp
      then have "js_includes cs pat" using Cons.IH by blast
      then show ?thesis by simp
    qed
  qed
qed

lemma js_includes_append: "js_includes xs pat \<Longrightarrow> js_includes (xs @ ys) pat"
proof -
  assume "js_includes xs pat"
  then obtain a b where "xs = a @ pat @ b" by (auto simp: js_includes_iff)
  then have "xs @ ys = a @ pat @ (b @ ys)" by simp
  then show ?thesis unfolding js_includes_iff by blast
qed

subsection \<open>Selector resolver\<close>

lemma wfs_step_found:
  "fst (d_waitForSelector drv c False (world s)) = Inr (Some h)
   \<Longrightarrow> fst (waitForSelectorWithFallback drv (c # post) s) = Inr (Some h)"
  by (auto simp: page_waitForSelector_def perform_def split: prod.splits sum.splits option.splits)

lemma wfs_step_absent:
  "\<forall>h. fst (d_waitForSelector drv c False (world s)) \<noteq> Inr (Some h)
   \<Longrightarrow> waitForSelectorWithFallback drv (c # post) s =
       waitForSelectorWithFallback drv post (snd (page_waitForSelector drv c False s))"
  by (auto simp: page_waitForSelector_def perform_def split: prod.splits sum.splits option.splits)

lemma page_waitForSelector_world:
  "world (snd (page_waitForSelector drv c vis s)) = snd (d_waitForSelector drv c vis (world s))"
  by (auto simp: page_waitForSelector_def perform_def split: prod.splits sum.splits)

lemma page_waitForSelector_trace:
  "map fst (trace (snd (page_waitForSelector drv c vis s))) =
     map fst (trace s) @ [WaitForSelector c vis]"
  by (auto simp: page_waitForSelector_def perform_def split: prod.splits sum.splits)

lemma waitForSelectorWithFallback_never_throws:
  "fst (waitForSelectorWithFallback drv selectors s) \<noteq> Inl e"
  by (induction selectors arbitrary: s)
     (auto simp: page_waitForSelector_def perform_def split: prod.splits sum.splits option.splits)

text \<open>
  Claim C3, as stated, fails: the resolver never looks at visibility or enabledness. On
  the mock page \<open>two_buttons\<close> the candidate \<^verbatim>\<open>#a\<close> matches a hidden element and
  \<^verbatim>\<open>#b\<close> a visible, enabled one. The specification's resolver answers the element of
  \<^verbatim>\<open>#b\<close>; the code returns the hidden element of \<^verbatim>\<open>#a\<close>.
\<close>

theorem resolver_returns_hidden_element:
  "fst (waitForSelectorWithFallback mock_driver [''#a'', ''#b''] (mock_page two_buttons))
     = Inr (Some 1)
   \<and> spec_resolve two_buttons [''#a'', ''#b''] = Some 2
   \<and> fst (waitForSelectorWithFallback mock_driver [''#a'', ''#b''] (mock_page two_buttons))
     \<noteq> Inr (spec_resolve two_buttons [''#a'', ''#b''])"
  by (simp add: mock_driver_def mock_page_def two_buttons_def blank_def
        page_waitForSelector_def perform_def spec_resolve_def spec_interactable_def)

text \<open>
  Claim C3, amended: the resolver returns the element of the first candidate, in list
  order, whose lookup resolves to an element, whatever the earlier absent candidates and
  whatever the element's visibility or enabledness. Presence and absence are taken over
  the worlds the page can be in during the call, given by an invariant \<open>I\<close> that the
  lookups preserve.
\<close>

theorem resolver_first_present:
  assumes "I (world s)"
      and "\<And>sel w. I w \<Longrightarrow> I (snd (d_waitForSelector drv sel False w))"
      and "\<And>sel w h. sel \<in> set pre \<Longrightarrow> I w \<Longrightarrow>
             fst (d_waitForSelector drv sel False w) \<noteq> Inr (Some h)"
      and "\<And>w. I w \<Longrightarrow> fst (d_waitForSelector drv c False w) = Inr (Some element)"
    shows "fst (waitForSelectorWithFallback drv (pre @ c # post) s) = Inr (Some element)"
  using assms(1,3)
proof (induction pre arbitrary: s)
  case Nil
  then show ?case using assms(4) by (simp only: append_Nil wfs_step_found)
next
  case (Cons a pre)
  let ?s1 = "snd (page_waitForSelector drv a False s)"
  have ab: "\<forall>h. fst (d_waitForSelector drv a False (world s)) \<noteq> Inr (Some h)"
    using Cons.prems by simp
  have I1: "I (world ?s1)"
    using Cons.prems(1) assms(2) by (simp add: page_waitForSelector_world)
  have "fst (waitForSelectorWithFallback drv (pre @ c # post) ?s1) = Inr (Some element)"
    using Cons.IH[OF I1] Cons.prems(2) by simp
  then show ?case
    by (simp only: append_Cons wfs_step_absent[OF ab])
qed

theorem resolver_first_present_witness:
  "fst (waitForSelectorWithFallback mock_driver ([''#x''] @ ''#a'' # [''#b''])
          (mock_page two_buttons)) = Inr (Some 1)"
proof (rule resolver_first_present[where I = "\<lambda>w. w = two_buttons"])
  show "world (mock_page two_buttons) = two_buttons" by (simp add: mock_page_def)
next
  fix sel w assume "w = two_buttons"
  then show "snd (d_waitForSelector mock_driver sel False w) = two_buttons"
    by (simp add: mock_driver_def split: option.splits)
next
  fix sel w h assume "sel \<in> set [''#x'']" "w = two_buttons"
  then show "fst (d_waitForSelector mock_driver sel False w) \<noteq> Inr (Some h)"
    by (auto simp add: mock_driver_def two_buttons_def blank_def)
next
  fix w assume "w = two_buttons"
  then show "fst (d_waitForSelector mock_driver ''#a'' False w) = Inr (Some 1)"
    by (auto simp add: mock_driver_def two_buttons_def blank_def)
qed

text \<open>
  Claim C4: when every candidate of the list is absent (its lookup rejects or resolves
  to no element, in every world the page can be in during the call), the resolver tries
  each candidate once, in order, and returns not-found as a normal value: it does not
  raise.
\<close>

theorem resolver_all_absent:
  assumes "I (world s)"
      and "\<And>sel w. I w \<Longrightarrow> I (snd (d_waitForSelector drv sel False w))"
      and "\<And>sel w h. sel \<in> set selectors \<Longrightarrow> I w \<Longrightarrow>
             fst (d_waitForSelector drv sel False w) \<noteq> Inr (Some h)"
    shows "fst (waitForSelectorWithFallback drv selectors s) = Inr None \<and>
           map fst (trace (snd (waitForSelectorWithFallback drv selectors s))) =
             map fst (trace s) @ map (\<lambda>sel. WaitForSelector sel False) selectors"
  using assms(1,3)
proof (induction selectors arbitrary: s)
  case Nil
  then show ?case by simp
next
  case (Cons sel sels)
  let ?s1 = "snd (page_waitForSelector drv sel False s)"
  have ab: "\<forall>h. fst (d_waitForSelector drv sel False (world s)) \<noteq> Inr (Some h)"
    using Cons.prems by simp
  have I1: "I (world ?s1)"
    using Cons.prems(1) assms(2) by (simp add: page_waitForSelector_world)
  have "fst (waitForSelectorWithFallback drv sels ?s1) = Inr None \<and>
           map fst (trace (snd (waitForSelectorWithFallback drv sels ?s1))) =
             map fst (trace ?s1) @ map (\<lambda>sel. WaitForSelector sel False) sels"
    using Cons.IH[OF I1] Cons.prems(2) by simp
  then show ?case
    by (simp only: wfs_step_absent[OF ab] page_waitForSelector_trace) simp
qed

theorem resolver_all_absent_witness:
  "fst (waitForSelectorWithFallback mock_driver [''#x'', ''#y''] (mock_page two_buttons))
     = Inr None \<and>
   map fst (trace (snd (waitForSelectorWithFallback mock_driver [''#x'', ''#y'']
                          (mock_page two_buttons)))) =
     map fst (trace (mock_page two_buttons)) @
     map (\<lambda>sel. WaitForSelector sel False) [''#x'', ''#y'']"
proof (rule resolver_all_absent[where I = "\<lambda>w. w = two_buttons"])
  show "world (mock_page two_buttons) = two_buttons" by (simp add: mock_page_def)
next
  fix sel w assume "w = two_buttons"
  then show "snd (d_waitForSelector mock_driver sel False w) = two_buttons"
    by (simp add: mock_driver_def split: option.splits)
next
  fix sel w h assume "sel \<in> set [''#x'', ''#y'']" "w = two_buttons"
  then show "fst (d_waitForSelector mock_driver sel False w) \<noteq> Inr (Some h)"
    by (auto simp add: mock_driver_def two_buttons_def blank_def)
qed

subsection \<open>Navigator\<close>



lemma navigateWithRetry_third_attempt:
  "navigateWithRetry_int mock_driver ''u'' 3 (mock_page (blank\<lparr>mk_failing_loads := 2\<rparr>)) =
     (Inr True,
      \<lparr>world = blank\<lparr>mk_url := ''u''\<rparr>,
       trace = failed_attempts ''u'' [''Navigation timeout exceeded'', ''Navigation timeout exceeded'']
               @ [(Goto ''u'', Resolved)]\<rparr>)"
  by code_simp


text \<open>
  At a finite \<open>maxRetries\<close> up to \<open>2 ^ 53\<close> the loop returns, and runs as the integer loop does
  at \<open>maxRetries\<close> rounded up: an integer counter is below \<open>q\<close> exactly when it is below
  \<open>\<lceil>q\<rceil>\<close>.
\<close>

lemma navigate_loop_finite:
  "q \<le> 2 ^ 53 \<Longrightarrow>
   navigate_loop drv url (Num q) attempts s = Some (navigate_loop_int drv url \<lceil>q\<rceil> attempts s)"
proof (induction drv url "\<lceil>q\<rceil>" attempts s rule: navigate_loop_int.induct)
  case (1 drv url attempts s)
  have lt: "\<And>a. of_int a < q \<longleftrightarrow> a < \<lceil>q\<rceil>" by (simp add: less_ceiling_iff)
  show ?case
  proof (cases "attempts < \<lceil>q\<rceil>")
    case False
    then show ?thesis
      by (subst navigate_loop.simps, subst navigate_loop_int.simps) (simp add: js_lt_def lt)
  next
    case True
    then have "of_int attempts < q" by (simp add: lt)
    then have "of_int attempts < (2::rat) ^ 53" using "1.prems" by simp
    then have small: "attempts < 2 ^ 53" by (metis of_int_less_iff of_int_numeral of_int_power)
    have inc: "js_increment attempts = attempts + 1" using small by (simp add: js_increment_def)
    have ge: "js_ge (attempts + 1) (Num q) \<longleftrightarrow> \<lceil>q\<rceil> \<le> attempts + 1"
      by (simp add: js_ge_def ceiling_le_iff)
    obtain r s1 where g: "page_goto drv url s = (r, s1)" by (cases "page_goto drv url s")
    show ?thesis
    proof (cases r)
      case (Inr u)
      then show ?thesis using True g
        by (subst navigate_loop.simps, subst navigate_loop_int.simps) (simp add: js_lt_def lt)
    next
      case (Inl msg)
      show ?thesis
      proof (cases "\<lceil>q\<rceil> \<le> attempts + 1")
        case le: True
        then show ?thesis using True g Inl inc ge
          by (subst navigate_loop.simps, subst navigate_loop_int.simps) (simp add: js_lt_def lt)
      next
        case nle: False
        obtain u s2 where t: "page_waitForTimeout drv 1000 s1 = (u, s2)"
          by (cases "page_waitForTimeout drv 1000 s1")
        have ih: "navigate_loop drv url (Num q) (attempts + 1) s2 =
                  Some (navigate_loop_int drv url \<lceil>q\<rceil> (attempts + 1) s2)"
          using "1.hyps"[OF True g[symmetric] Inl nle t[symmetric]] "1.prems" by simp
        show ?thesis using True g Inl inc ge nle t ih
          by (subst navigate_loop.simps, subst navigate_loop_int.simps) (simp add: js_lt_def lt)
      qed
    qed
  qed
qed

lemma navigateWithRetry_finite:
  "q \<le> 2 ^ 53 \<Longrightarrow>
   navigateWithRetry drv url (Num q) s = Some (navigateWithRetry_int drv url \<lceil>q\<rceil> s)"
  by (simp add: navigateWithRetry_def navigateWithRetry_int_def navigate_loop_finite)

text \<open>The call with the default \<^verbatim>\<open>maxRetries = 3\<close>.\<close>

lemma navigateWithRetry_default:
  "navigateWithRetry drv url (Num 3) s = Some (navigateWithRetry_int drv url 3 s)"
  using navigateWithRetry_finite[of 3 drv url s] by simp







subsection \<open>Post operations: URL validation\<close>

lemma openPost_invalid:
  "\<not> isValidLinkedInPostUrl url \<Longrightarrow> openPost drv url s = (Inl invalid_url_message, s)"
  by (simp add: openPost_def throw_def)

lemma likePost_invalid:
  "\<not> isValidLinkedInPostUrl url \<Longrightarrow>
   likePost drv url s = (Inl (''Failed to like LinkedIn post: '' @ invalid_url_message), s)"
  by (simp add: likePost_def tryCatch_def andThen_def openPost_invalid throw_def)

lemma commentOnPost_invalid:
  "\<not> isValidLinkedInPostUrl url \<Longrightarrow>
   commentOnPost drv url c s =
     (Inl (''Failed to comment on LinkedIn post: '' @ invalid_url_message), s)"
  by (simp add: commentOnPost_def tryCatch_def andThen_def openPost_invalid throw_def)

lemma sharePost_invalid:
  "\<not> isValidLinkedInPostUrl url \<Longrightarrow>
   sharePost drv url c s = (Inl (''Failed to share LinkedIn post: '' @ invalid_url_message), s)"
  by (simp add: sharePost_def tryCatch_def andThen_def openPost_invalid throw_def)

lemma getPostInfo_invalid:
  "\<not> isValidLinkedInPostUrl url \<Longrightarrow>
   getPostInfo drv url s =
     (Inl (''Failed to get LinkedIn post information: '' @ invalid_url_message),
      snd (takeScreenshot drv ''post-info-error'' s))"
  by (simp add: getPostInfo_def tryCatch_def andThen_def openPost_invalid throw_def
        takeScreenshot_def Let_def ret_def split: prod.splits sum.splits)

lemma takeScreenshot_trace:
  "\<exists>a. trace (snd (takeScreenshot drv name s)) =
        trace s @ [(Screenshot (''linkedin-'' @ name @ ''-'' @ d_timestamp drv (world s) @ ''.png''), a)]"
  by (auto simp add: takeScreenshot_def tryCatch_def andThen_def Let_def ret_def
        page_screenshot_def perform_def split: prod.splits sum.splits)

lemma not_valid_iff:
  "\<not> isValidLinkedInPostUrl url \<longleftrightarrow>
     (\<not> (\<exists>a b. url = a @ ''linkedin.com/feed/update/'' @ b) \<and>
      \<not> (\<exists>a b. url = a @ ''linkedin.com/posts/'' @ b))"
  by (cases url) (auto simp add: isValidLinkedInPostUrl_def js_includes_iff simp del: js_includes.simps)

text \<open>
  Claim C10, as stated, fails for getPostInfo: on the empty URL its catch block calls
  \<^verbatim>\<open>page.screenshot\<close> before the error leaves the function, so one page call is made
  and the page state (here, the files written) is not what it was.
\<close>

theorem getPostInfo_invalid_url_screenshot:
  "\<not> isValidLinkedInPostUrl [] \<and>
   snd (getPostInfo mock_driver [] (mock_page blank)) \<noteq> mock_page blank \<and>
   trace (snd (getPostInfo mock_driver [] (mock_page blank))) =
     [(Screenshot ''linkedin-post-info-error-0.png'', Resolved)]"
  by code_simp

text \<open>
  Claim C10, amended: for every URL that contains neither
  \<^verbatim>\<open>linkedin.com/feed/update/\<close> nor \<^verbatim>\<open>linkedin.com/posts/\<close> (the empty string included),
  likePost, commentOnPost and sharePost throw the invalid-URL error without any driver
  call and leave the page state unchanged; getPostInfo throws the invalid-URL error too,
  after one diagnostic screenshot and no other call (no navigation, no element lookup, no
  click).
\<close>

theorem invalid_url_rejected:
  assumes "\<not> (\<exists>a b. url = a @ ''linkedin.com/feed/update/'' @ b)"
      and "\<not> (\<exists>a b. url = a @ ''linkedin.com/posts/'' @ b)"
    shows "likePost drv url s =
             (Inl (''Failed to like LinkedIn post: '' @ invalid_url_message), s)
         \<and> commentOnPost drv url comment s =
             (Inl (''Failed to comment on LinkedIn post: '' @ invalid_url_message), s)
         \<and> sharePost drv url shareText s =
             (Inl (''Failed to share LinkedIn post: '' @ invalid_url_message), s)
         \<and> fst (getPostInfo drv url s) =
             Inl (''Failed to get LinkedIn post information: '' @ invalid_url_message)
         \<and> (\<exists>a. trace (snd (getPostInfo drv url s)) =
               trace s @ [(Screenshot (''linkedin-post-info-error-'' @ d_timestamp drv (world s)
                                        @ ''.png''), a)])"
proof -
  have inv: "\<not> isValidLinkedInPostUrl url"
    using assms by (simp only: not_valid_iff) simp
  have "\<exists>a. trace (snd (getPostInfo drv url s)) =
               trace s @ [(Screenshot (''linkedin-post-info-error-'' @ d_timestamp drv (world s)
                                        @ ''.png''), a)]"
    using takeScreenshot_trace[of drv "''post-info-error''" s]
    by (simp add: getPostInfo_invalid[OF inv])
  then show ?thesis
    by (simp add: likePost_invalid[OF inv] commentOnPost_invalid[OF inv]
          sharePost_invalid[OF inv] getPostInfo_invalid[OF inv])
qed

theorem invalid_url_rejected_witness:
  "likePost mock_driver ''https://example.test/posts/123'' (mock_page blank) =
     (Inl (''Failed to like LinkedIn post: '' @ invalid_url_message), mock_page blank)
   \<and> commentOnPost mock_driver ''https://example.test/posts/123'' ''Nice'' (mock_page blank) =
     (Inl (''Failed to comment on LinkedIn post: '' @ invalid_url_message), mock_page blank)
   \<and> sharePost mock_driver ''https://example.test/posts/123'' [] (mock_page blank) =
     (Inl (''Failed to share LinkedIn post: '' @ invalid_url_message), mock_page blank)
   \<and> fst (getPostInfo mock_driver ''https://example.test/posts/123'' (mock_page blank)) =
     Inl (''Failed to get LinkedIn post information: '' @ invalid_url_message)
   \<and> (\<exists>a. trace (snd (getPostInfo mock_driver ''https://example.test/posts/123''
                         (mock_page blank))) =
         trace (mock_page blank) @
         [(Screenshot (''linkedin-post-info-error-'' @ d_timestamp mock_driver
                         (world (mock_page blank)) @ ''.png''), a)])"
proof (rule invalid_url_rejected)
  show "\<not> (\<exists>a b. ''https://example.test/posts/123'' = a @ ''linkedin.com/feed/update/'' @ b)"
    by (simp only: js_includes_iff[symmetric]) simp
next
  show "\<not> (\<exists>a b. ''https://example.test/posts/123'' = a @ ''linkedin.com/posts/'' @ b)"
    by (simp only: js_includes_iff[symmetric]) simp
qed

subsection \<open>Post operations: like\<close>

text \<open>
  The service implementation likePost reads the pressed state first and again after the
  click. On a control that is already pressed it makes no click; on a page that does not
  register the click it fails.
\<close>

lemma likePost_already_liked:
  "likePost mock_driver post_url (mock_page liked_post) =
     (Inr True,
      \<lparr>world = liked_post\<lparr>mk_url := post_url\<rparr>,
       trace = [(Goto post_url, Resolved),
                (WaitForSelector SELECTORS_POST_CONTAINER False, Element (Some 3)),
                (WaitForSelector ''button.react-button__trigger'' False, Element (Some 7)),
                (IsPressed 7, Flag True)]\<rparr>)"
  by code_simp

lemma likePost_click_not_registered:
  "fst (likePost mock_driver post_url (mock_page unresponsive_post)) =
     Inl (''Failed to like LinkedIn post: '' @
          ''Like action did not register. The post might not be likeable.'')"
  by code_simp

text \<open>
  On every page, likePost returns true only when its last call was a read of the pressed
  state that answered true.
\<close>

lemma likePost_success_observed:
  "likePost drv url s = (Inr b, s') \<Longrightarrow>
   b \<and> (\<exists>h. last (trace s') = (IsPressed h, Flag True))"
  by (auto simp add: likePost_def prog_defs elem_isPressed_def elem_click_def perform_def
        page_waitForTimeout_def split: prod.splits sum.splits option.splits if_splits)

text \<open>
  The handler the node dispatches to, handlePostOperations, does neither. Whenever its
  like operation succeeds, the calls it made are a page load, a wait for the like
  control, a click on it and the settle delay: the pressed state is never read.
\<close>

lemma handlePostOperations_like_calls:
  assumes "handlePostOperations drv params ''like'' i s = (Inr r, s')"
  shows "r = \<lparr>ar_success = True, ar_action = ''liked'', ar_url = np_url params i,
              ar_comment = None\<rparr>
       \<and> map fst (trace s') = map fst (trace s) @
           [Goto (np_url params i), WaitForSelector NODE_LIKE_BUTTON False,
            PageClick NODE_LIKE_BUTTON, WaitForTimeout NODE_WAIT_ACTION]"
  using assms
  by (auto simp add: handlePostOperations_def Let_def prog_defs driver_call_defs
        split: prod.splits sum.splits)

text \<open>
  Claim C6 at its failing input: the like control of the post is already pressed.
  handlePostOperations clicks it all the same, which releases it, and reports success.
\<close>

theorem handlePostOperations_like_clicks_pressed_control:
  "handlePostOperations mock_driver like_params ''like'' 0 (mock_page liked_post) =
     (Inr \<lparr>ar_success = True, ar_action = ''liked'', ar_url = post_url, ar_comment = None\<rparr>,
      \<lparr>world = liked_post\<lparr>mk_url := post_url, mk_pressed := []\<rparr>,
       trace = [(Goto post_url, Resolved),
                (WaitForSelector NODE_LIKE_BUTTON False, Element (Some 7)),
                (PageClick NODE_LIKE_BUTTON, Resolved),
                (WaitForTimeout 2000, Resolved)]\<rparr>)"
  by code_simp

text \<open>
  Claim C7 at its failing input: the page does not register the click, so the like
  control stays unpressed. handlePostOperations reports success without reading the
  state of the control.
\<close>

theorem handlePostOperations_like_reports_unverified_success:
  "handlePostOperations mock_driver like_params ''like'' 0 (mock_page unresponsive_post) =
     (Inr \<lparr>ar_success = True, ar_action = ''liked'', ar_url = post_url, ar_comment = None\<rparr>,
      \<lparr>world = unresponsive_post\<lparr>mk_url := post_url\<rparr>,
       trace = [(Goto post_url, Resolved),
                (WaitForSelector NODE_LIKE_BUTTON False, Element (Some 7)),
                (PageClick NODE_LIKE_BUTTON, Resolved),
                (WaitForTimeout 2000, Resolved)]\<rparr>)
   \<and> mk_pressed (unresponsive_post\<lparr>mk_url := post_url\<rparr>) = []"
  by code_simp

subsection \<open>Login: two-factor code\<close>

lemmas mock_defs = mock_driver_def mock_page_def blank_def mock_click_def mock_toggle_def
  mock_follow_def login_surface_def login_creds_def post_dom_def post_url_def no_handlers_def
  batch_params_def

lemmas node_defs = NODE_LOGIN_USERNAME_def NODE_LOGIN_PASSWORD_def NODE_LOGIN_SUBMIT_def
  NODE_LOGIN_VERIFICATION_CODE_def NODE_LOGIN_VERIFICATION_SUBMIT_def
  NODE_SECURITY_CHALLENGE_def NODE_SECURITY_CHALLENGE_SUBMIT_def NODE_WAIT_NAVIGATION_def
  NODE_LIKE_BUTTON_def NODE_WAIT_ACTION_def SELECTORS_POST_CONTAINER_def

lemmas login_defs = loginToLinkedIn_def submitCredentials_def handle2FA_def
  handleSecurityChallenge_def submitAndSettle_def promiseAll2_def

text \<open>
  handle2FA throws the missing-code error inside its own \<^verbatim>\<open>try\<close>, whose \<^verbatim>\<open>catch\<close> only
  logs: without a code it returns normally and has not touched the page. In fact it
  never throws.
\<close>

lemma handle2FA_missing_code:
  "handle2FA drv None s = (Inr (), s)" "handle2FA drv (Some []) s = (Inr (), s)"
  by (simp_all add: handle2FA_def prog_defs)

lemma handle2FA_never_throws: "fst (handle2FA drv code s) = Inr ()"
  by (auto simp add: handle2FA_def prog_defs split: prod.splits sum.splits option.splits)

text \<open>
  Claim C2 at its failing input: the stored credentials enable two-factor authentication
  and carry no code, and the login surface leads to the feed. The login does not fail:
  it returns normally.
\<close>

theorem login_ignores_missing_two_factor_code:
  "cred_use2FA login_creds \<and> cred_twoFactorCode login_creds = None \<and>
   mk_creds login_surface = Some login_creds \<and>
   map_option fst (loginToLinkedIn mock_driver (mock_page login_surface)) = Some (Inr ())"
  by (simp add: login_defs prog_defs driver_call_defs mock_defs node_defs)

subsection \<open>Checkpoint recursion\<close>

lemmas ck_defs = checkpoint_driver_def ck_url_def ck_advance_def ck_creds_def

lemma js_trim_Continue: "js_trim ''Continue'' = ''Continue''"
  by code_simp

lemmas checkpoint_defs = js_trim_Continue checkpointPass_def checkpointTail_def checkpointVerdict_def
  checkpointHeadless_def
  clickAndWait_def promiseAll2_def textMatches_def buttonTextOptions_def
  checkboxSelector_def textInputsSelector_def js_toLowerCase_def
  js_lower_char_def Let_def

lemma andThen_Inr:
  "andThen m k s = (Inr v, s') \<Longrightarrow> \<exists>x s1. m s = (Inr x, s1) \<and> k x s1 = (Inr v, s')"
  by (auto simp add: andThen_def split: prod.splits sum.splits)

text \<open>
  The end of a pass asks for the recursive call exactly when the final URL passes the
  test above; the screenshot, the headless failure and the manual wait never do.
\<close>

lemma checkpointVerdict_advanced_iff:
  "checkpointVerdict drv currentUrl s = (Inr Advanced, s') \<longleftrightarrow>
     s' = s \<and> recursion_condition (page_url drv s) currentUrl"
proof
  assume rc: "s' = s \<and> recursion_condition (page_url drv s) currentUrl"
  then show "checkpointVerdict drv currentUrl s = (Inr Advanced, s')"
    by (simp add: checkpointVerdict_def Let_def recursion_condition_def)
next
  assume assms: "checkpointVerdict drv currentUrl s = (Inr Advanced, s')"
  let ?u = "page_url drv s"
  show "s' = s \<and> recursion_condition (page_url drv s) currentUrl"
  proof (cases "js_includes ?u ''linkedin.com/feed'' \<or> js_includes ?u ''linkedin.com.home''")
    case True
    then show ?thesis using assms by (simp add: checkpointVerdict_def Let_def)
  next
    case False
    show ?thesis
    proof (cases "js_includes ?u ''checkpoint'' \<and> ?u \<noteq> currentUrl")
      case True
      then show ?thesis using assms False
        by (auto simp add: checkpointVerdict_def Let_def recursion_condition_def)
    next
      case nc: False
      let ?rest = "andThen (page_screenshot drv ''linkedin-checkpoint-final.png'') (\<lambda>_.
        andThen (checkpointHeadless drv) (\<lambda>headless.
          if headless then
            throw (''Could not automatically handle LinkedIn checkpoint page. '' @
                   ''Try running with headless=false to manually approve the login.'')
          else
            andThen (page_waitForTimeout drv 30000) (\<lambda>_ s'.
              let newUrl = page_url drv s' in
              if js_includes newUrl ''linkedin.com/feed'' \<or>
                 js_includes newUrl ''linkedin.com/home'' \<or>
                 \<not> js_includes newUrl ''checkpoint''
              then (Inr Passed, s')
              else (Inl (''Even after waiting for user intervention, '' @
                         ''still stuck at LinkedIn checkpoint page.''), s'))))"
      have r: "?rest s = (Inr Advanced, s')"
        using assms False nc by (simp add: checkpointVerdict_def Let_def)
      from andThen_Inr[OF r] obtain x s1 where
        k1: "andThen (checkpointHeadless drv) (\<lambda>headless.
          if headless then
            throw (''Could not automatically handle LinkedIn checkpoint page. '' @
                   ''Try running with headless=false to manually approve the login.'')
          else
            andThen (page_waitForTimeout drv 30000) (\<lambda>_ s'.
              let newUrl = page_url drv s' in
              if js_includes newUrl ''linkedin.com/feed'' \<or>
                 js_includes newUrl ''linkedin.com/home'' \<or>
                 \<not> js_includes newUrl ''checkpoint''
              then (Inr Passed, s')
              else (Inl (''Even after waiting for user intervention, '' @
                         ''still stuck at LinkedIn checkpoint page.''), s'))) s1 = (Inr Advanced, s')"
        by blast
      from andThen_Inr[OF k1] obtain h s2 where
        k2: "(if h then
            throw (''Could not automatically handle LinkedIn checkpoint page. '' @
                   ''Try running with headless=false to manually approve the login.'')
          else
            andThen (page_waitForTimeout drv 30000) (\<lambda>_ s'.
              let newUrl = page_url drv s' in
              if js_includes newUrl ''linkedin.com/feed'' \<or>
                 js_includes newUrl ''linkedin.com/home'' \<or>
                 \<not> js_includes newUrl ''checkpoint''
              then (Inr Passed, s')
              else (Inl (''Even after waiting for user intervention, '' @
                         ''still stuck at LinkedIn checkpoint page.''), s'))) s2 = (Inr Advanced, s')"
        by blast
      then have False
        by (cases h) (auto simp add: throw_def andThen_def page_waitForTimeout_def Let_def
              split: if_splits)
      then show ?thesis ..
    qed
  qed
qed

lemma checkpointVerdict_advanced:
  assumes "checkpointVerdict drv currentUrl s = (Inr Advanced, s')"
  shows "recursion_condition (page_url drv s') currentUrl"
  using assms by (simp add: checkpointVerdict_advanced_iff)

text \<open>
  With no progress, a headless run ends the pass with the fatal failure.
\<close>

lemma checkpointVerdict_headless:
  assumes feed: "\<not> js_includes (page_url drv s) ''linkedin.com/feed''"
    and home: "\<not> js_includes (page_url drv s) ''linkedin.com.home''"
    and same: "\<not> recursion_condition (page_url drv s) currentUrl"
    and shot: "fst (page_screenshot drv ''linkedin-checkpoint-final.png'' s) = Inr ()"
    and headless: "fst (checkpointHeadless drv
                     (snd (page_screenshot drv ''linkedin-checkpoint-final.png'' s))) = Inr True"
  shows "fst (checkpointVerdict drv currentUrl s) = Inl headless_failure"
proof -
  obtain s1 where p1: "page_screenshot drv ''linkedin-checkpoint-final.png'' s = (Inr (), s1)"
    using shot by (cases "page_screenshot drv ''linkedin-checkpoint-final.png'' s") simp
  obtain s2 where p2: "checkpointHeadless drv s1 = (Inr True, s2)"
    using headless p1 by (cases "checkpointHeadless drv s1") simp
  have nc: "\<not> (js_includes (page_url drv s) ''checkpoint'' \<and> page_url drv s \<noteq> currentUrl)"
    using feed home same by (simp add: recursion_condition_def)
  show ?thesis
    using feed home nc p1 p2
    by (simp add: checkpointVerdict_def Let_def andThen_def throw_def headless_failure_def)
qed

lemma andThen_ends:
  assumes "andThen m k s = (Inr v, s')"
  obtains x s1 where "k x s1 = (Inr v, s')"
  using andThen_Inr[OF assms] by blast

lemma checkpointTail_advanced:
  assumes "checkpointTail drv currentUrl s = (Inr Advanced, s')"
  shows "recursion_condition (page_url drv s') currentUrl"
  using assms unfolding checkpointTail_def
  by (elim andThen_ends) (rule checkpointVerdict_advanced)

lemma checkpointPass_advanced:
  assumes "checkpointPass drv s = (Inr Advanced, s')"
  shows "recursion_condition (page_url drv s')
           (page_url drv (snd (page_screenshot drv ''linkedin-checkpoint.png'' s)))"
proof -
  from andThen_Inr[OF assms[unfolded checkpointPass_def]] obtain u s0 where
    shot: "page_screenshot drv ''linkedin-checkpoint.png'' s = (Inr u, s0)"
    and rest: "(let currentUrl = page_url drv s0 in
       andThen (page_content drv) (\<lambda>pageContent.
       andThen (page_title drv) (\<lambda>_.
       andThen (page_queryAll drv textInputsSelector)
         (\<lambda>textInputs.
       andThen (if textInputs \<noteq> []
                then andThen (getCredentials drv) (\<lambda>credentials.
                       fillInputs drv credentials textInputs)
                else ret ()) (\<lambda>_.
       andThen (clickByText drv buttonTextOptions) (\<lambda>buttonClicked.
       andThen (if \<not> buttonClicked then clickGeneric drv checkpointButtonSelectors
                else ret False) (\<lambda>passed.
         if passed then ret Passed else checkpointTail drv currentUrl)))))) s0) = (Inr Advanced, s')"
    by blast
  from rest have "recursion_condition (page_url drv s') (page_url drv s0)"
    unfolding Let_def
    by (elim andThen_ends) (auto simp add: ret_def dest: checkpointTail_advanced split: if_splits)
  then show ?thesis using shot by simp
qed

text \<open>One pass on the mock surface: it advances while the surface changes its URL.\<close>

lemma pass_endless:
  "fst (checkpointPass checkpoint_driver
          \<lparr>world = \<lparr>ck_flip = b, ck_budget = None\<rparr>, trace = t\<rparr>) = Inr Advanced \<and>
   world (snd (checkpointPass checkpoint_driver
          \<lparr>world = \<lparr>ck_flip = b, ck_budget = None\<rparr>, trace = t\<rparr>)) =
     \<lparr>ck_flip = \<not> b, ck_budget = None\<rparr>"
  by (cases b) (simp_all add: checkpoint_defs ck_defs prog_defs driver_call_defs)

lemma pass_budget_Suc:
  "fst (checkpointPass checkpoint_driver
          \<lparr>world = \<lparr>ck_flip = b, ck_budget = Some (Suc n)\<rparr>, trace = t\<rparr>) = Inr Advanced \<and>
   world (snd (checkpointPass checkpoint_driver
          \<lparr>world = \<lparr>ck_flip = b, ck_budget = Some (Suc n)\<rparr>, trace = t\<rparr>)) =
     \<lparr>ck_flip = \<not> b, ck_budget = Some n\<rparr>"
  by (cases b) (simp_all add: checkpoint_defs ck_defs prog_defs driver_call_defs)

lemma pass_budget_0:
  "fst (checkpointPass checkpoint_driver
          \<lparr>world = \<lparr>ck_flip = b, ck_budget = Some 0\<rparr>, trace = t\<rparr>) = Inl headless_failure"
  by (cases b)
     (simp_all add: checkpoint_defs ck_defs prog_defs driver_call_defs headless_failure_def)

text \<open>
  On the surface that changes its URL at every pass, no call of handleCheckpoint
  returns: by induction on the unfolding of the recursion, every call that returns has
  started on a surface with a budget.
\<close>

lemma endless_never_returns:
  assumes ret: "handleCheckpoint drv s = Some y"
  shows "drv = checkpoint_driver \<longrightarrow> ck_budget (world s) = None \<longrightarrow> False"
proof (rule handleCheckpoint.raw_induct
         [where P = "\<lambda>drv s y. drv = checkpoint_driver \<longrightarrow> ck_budget (world s) = None \<longrightarrow> False",
          OF _ ret])
  fix f :: "ck driver \<Rightarrow> ck page \<Rightarrow> (unit res \<times> ck page) option"
  fix drv s y
  assume IH: "\<And>d s y. f d s = Some y \<Longrightarrow>
                d = checkpoint_driver \<longrightarrow> ck_budget (world s) = None \<longrightarrow> False"
  assume body: "(case checkpointPass drv s of
        (Inl msg, s1) \<Rightarrow> Some (Inl (checkpointFailed msg), s1)
      | (Inr Passed, s1) \<Rightarrow> Some (Inr (), s1)
      | (Inr Advanced, s1) \<Rightarrow>
          Option.bind (f drv s1)
            (\<lambda>(r, s2). Some (case r of Inl msg \<Rightarrow> Inl (checkpointFailed msg) | Inr u \<Rightarrow> Inr u, s2)))
      = Some y"
  show "drv = checkpoint_driver \<longrightarrow> ck_budget (world s) = None \<longrightarrow> False"
  proof (intro impI)
    assume d: "drv = checkpoint_driver" and n: "ck_budget (world s) = None"
    obtain b t where s: "s = \<lparr>world = \<lparr>ck_flip = b, ck_budget = None\<rparr>, trace = t\<rparr>"
      using n by (cases s, cases "world s") auto
    obtain r s1 where p: "checkpointPass checkpoint_driver s = (r, s1)"
      by (cases "checkpointPass checkpoint_driver s")
    have r: "r = Inr Advanced" using pass_endless[of b t] p s by simp
    have w: "ck_budget (world s1) = None" using pass_endless[of b t] p s by simp
    from body obtain y' where "f checkpoint_driver s1 = Some y'"
      using p r d by (auto simp: bind_eq_Some_conv)
    then show False using IH w by blast
  qed
qed

text \<open>
  Claim C1, as stated, fails: the source counts no depth. On the mock surface that
  re-presents a checkpoint under a changed URL after every click, handleCheckpoint does
  not return.
\<close>

theorem handleCheckpoint_endless_surface_diverges:
  "handleCheckpoint checkpoint_driver (ck_page False None) = None"
proof (cases "handleCheckpoint checkpoint_driver (ck_page False None)")
  case None
  then show ?thesis .
next
  case (Some y)
  then have False using endless_never_returns[OF Some] by (simp add: ck_page_def)
  then show ?thesis ..
qed

text \<open>
  The calls of handleCheckpoint unfold pass by pass. After \<open>n\<close> passes that ended in the
  recursive call, a pass that returns makes every enclosing call return, and a pass that
  throws makes every enclosing call throw, each of the \<open>n + 1\<close> calls wrapping the message
  once.
\<close>

lemma advance_then_passed:
  "advance drv n s = Some sn \<Longrightarrow> checkpointPass drv sn = (Inr Passed, s') \<Longrightarrow>
   handleCheckpoint drv s = Some (Inr (), s')"
proof (induction n arbitrary: s)
  case 0
  then show ?case by (subst handleCheckpoint.simps) simp
next
  case (Suc n)
  obtain r s1 where p: "checkpointPass drv s = (r, s1)" by (cases "checkpointPass drv s")
  from Suc.prems(1) p have r: "r = Inr Advanced" and a: "advance drv n s1 = Some sn"
    by (auto split: sum.splits pass.splits)
  from Suc.IH[OF a Suc.prems(2)] show ?case
    using p r by (subst handleCheckpoint.simps) simp
qed

lemma advance_then_failed:
  "advance drv n s = Some sn \<Longrightarrow> checkpointPass drv sn = (Inl msg, s') \<Longrightarrow>
   handleCheckpoint drv s = Some (Inl ((checkpointFailed ^^ Suc n) msg), s')"
proof (induction n arbitrary: s)
  case 0
  then show ?case by (subst handleCheckpoint.simps) simp
next
  case (Suc n)
  obtain r s1 where p: "checkpointPass drv s = (r, s1)" by (cases "checkpointPass drv s")
  from Suc.prems(1) p have r: "r = Inr Advanced" and a: "advance drv n s1 = Some sn"
    by (auto split: sum.splits pass.splits)
  from Suc.IH[OF a Suc.prems(2)] show ?case
    using p r by (subst handleCheckpoint.simps) simp
qed

lemma advance_stops_returns:
  "advance drv n s = None \<Longrightarrow> handleCheckpoint drv s \<noteq> None"
proof (induction n arbitrary: s)
  case 0
  then show ?case by simp
next
  case (Suc n)
  obtain r s1 where p: "checkpointPass drv s = (r, s1)" by (cases "checkpointPass drv s")
  show ?case
  proof (cases r)
    case (Inl msg)
    then show ?thesis using p by (subst handleCheckpoint.simps) simp
  next
    case (Inr v)
    show ?thesis
    proof (cases v)
      case Passed
      then show ?thesis using p Inr by (subst handleCheckpoint.simps) simp
    next
      case Advanced
      then have "advance drv n s1 = None" using Suc.prems p Inr by simp
      then have "handleCheckpoint drv s1 \<noteq> None" by (rule Suc.IH)
      then show ?thesis using p Inr Advanced
        by (subst handleCheckpoint.simps) (auto simp add: bind_eq_None_conv)
    qed
  qed
qed

text \<open>
  Conversely a call that returns has unfolded finitely often: some pass did not end in
  the recursive call.
\<close>

lemma returns_advance_stops:
  assumes ret: "handleCheckpoint drv s = Some y"
  shows "\<exists>n. advance drv n s = None"
proof (rule handleCheckpoint.raw_induct[where P = "\<lambda>drv s y. \<exists>n. advance drv n s = None",
         OF _ ret])
  fix f :: "'a driver \<Rightarrow> 'a page \<Rightarrow> (unit res \<times> 'a page) option"
  fix drv s y
  assume IH: "\<And>d s y. f d s = Some y \<Longrightarrow> \<exists>n. advance d n s = None"
  assume body: "(case checkpointPass drv s of
        (Inl msg, s1) \<Rightarrow> Some (Inl (checkpointFailed msg), s1)
      | (Inr Passed, s1) \<Rightarrow> Some (Inr (), s1)
      | (Inr Advanced, s1) \<Rightarrow>
          Option.bind (f drv s1)
            (\<lambda>(r, s2). Some (case r of Inl msg \<Rightarrow> Inl (checkpointFailed msg) | Inr u \<Rightarrow> Inr u, s2)))
      = Some y"
  obtain r s1 where p: "checkpointPass drv s = (r, s1)" by (cases "checkpointPass drv s")
  show "\<exists>n. advance drv n s = None"
  proof (cases "r = Inr Advanced")
    case False
    then have "advance drv (Suc 0) s = None"
      using p by (auto split: sum.splits pass.splits)
    then show ?thesis by blast
  next
    case True
    from body obtain y' where "f drv s1 = Some y'"
      using p True by (auto simp: bind_eq_Some_conv)
    then obtain n where "advance drv n s1 = None" using IH by blast
    then have "advance drv (Suc n) s = None" using p True by simp
    then show ?thesis by blast
  qed
qed

text \<open>The mock surface: it advances for ever without a budget, and \<open>n\<close> times with one.\<close>

lemma advance_endless:
  "advance checkpoint_driver n \<lparr>world = \<lparr>ck_flip = b, ck_budget = None\<rparr>, trace = t\<rparr> \<noteq> None"
proof (induction n arbitrary: b t)
  case 0
  show ?case by simp
next
  case (Suc n)
  let ?s = "\<lparr>world = \<lparr>ck_flip = b, ck_budget = None\<rparr>, trace = t\<rparr>"
  obtain r s1 where p: "checkpointPass checkpoint_driver ?s = (r, s1)"
    by (cases "checkpointPass checkpoint_driver ?s")
  have r: "r = Inr Advanced" and w: "world s1 = \<lparr>ck_flip = \<not> b, ck_budget = None\<rparr>"
    using pass_endless[of b t] p by simp_all
  have s1: "s1 = \<lparr>world = \<lparr>ck_flip = \<not> b, ck_budget = None\<rparr>, trace = trace s1\<rparr>"
    using w by (cases s1) simp
  have "advance checkpoint_driver n s1 \<noteq> None"
    using Suc.IH[of "\<not> b" "trace s1"] s1 by simp
  then show ?case using p r by simp
qed

lemma advance_budget:
  "\<exists>sn. advance checkpoint_driver n
           \<lparr>world = \<lparr>ck_flip = b, ck_budget = Some (n + k)\<rparr>, trace = t\<rparr> = Some sn \<and>
         ck_budget (world sn) = Some k"
proof (induction n arbitrary: b t)
  case 0
  show ?case by simp
next
  case (Suc n)
  let ?s = "\<lparr>world = \<lparr>ck_flip = b, ck_budget = Some (Suc (n + k))\<rparr>, trace = t\<rparr>"
  obtain r s1 where p: "checkpointPass checkpoint_driver ?s = (r, s1)"
    by (cases "checkpointPass checkpoint_driver ?s")
  have r: "r = Inr Advanced" and w: "world s1 = \<lparr>ck_flip = \<not> b, ck_budget = Some (n + k)\<rparr>"
    using pass_budget_Suc[of b "n + k" t] p by simp_all
  have s1: "s1 = \<lparr>world = \<lparr>ck_flip = \<not> b, ck_budget = Some (n + k)\<rparr>, trace = trace s1\<rparr>"
    using w by (cases s1) simp
  obtain sn where "advance checkpoint_driver n s1 = Some sn" and "ck_budget (world sn) = Some k"
    using Suc.IH[of "\<not> b" "trace s1"] s1 by auto
  then show ?case using p r by simp
qed

text \<open>
  A page that is at the feed under a URL that also contains \<^verbatim>\<open>checkpoint\<close>: the pass
  returns at the feed test, before the test for the recursive call is reached.
\<close>

lemma pass_feed_checkpoint:
  "fst (checkpointPass mock_driver
          (mock_page (blank\<lparr>mk_url := ''https://www.linkedin.com/feed/?trk=checkpoint''\<rparr>))) =
     Inr Passed"
  by (simp add: checkpoint_defs mock_defs prog_defs driver_call_defs
        checkpointButtonSelectors_def)

text \<open>
  Claim C1, amended. handleCheckpoint is not bounded by a depth; it unfolds pass by pass.
  It returns exactly when some pass does not end in the recursive call, and does not
  return when every pass does, as on a surface that always re-presents a checkpoint under
  a changed URL. After \<open>n\<close> passes that ended in the recursive call, a pass that returns
  makes the call return normally, and a pass that throws makes it fail with that error,
  prefixed \<open>n + 1\<close> times by \<^verbatim>\<open>Checkpoint handling failed: \<close>. A pass ends in the recursive
  call only on a final URL that contains \<^verbatim>\<open>checkpoint\<close>, differs from the URL read at the
  start of the pass and contains neither \<^verbatim>\<open>linkedin.com/feed\<close> nor \<^verbatim>\<open>linkedin.com.home\<close>;
  where a pass reaches its final URL tests this condition is also sufficient. Where it
  reaches them on a URL that fails the feed tests and this condition, the final screenshot
  is taken and the run is headless, the pass throws the fatal
  \<^verbatim>\<open>Could not automatically handle LinkedIn checkpoint page\<close> error.
\<close>

theorem handleCheckpoint_returns_iff_passes_stop:
  "(handleCheckpoint drv s = None \<longleftrightarrow> (\<forall>n. advance drv n s \<noteq> None))
   \<and> (advance drv n s = Some sn \<and> checkpointPass drv sn = (Inr Passed, s') \<longrightarrow>
        handleCheckpoint drv s = Some (Inr (), s'))
   \<and> (advance drv n s = Some sn \<and> checkpointPass drv sn = (Inl msg, s') \<longrightarrow>
        handleCheckpoint drv s = Some (Inl ((checkpointFailed ^^ Suc n) msg), s'))
   \<and> (checkpointPass drv sn = (Inr Advanced, s') \<longrightarrow>
        recursion_condition (page_url drv s')
          (page_url drv (snd (page_screenshot drv ''linkedin-checkpoint.png'' sn))))
   \<and> (checkpointVerdict drv currentUrl sv = (Inr Advanced, sv') \<longleftrightarrow>
        sv' = sv \<and> recursion_condition (page_url drv sv) currentUrl)
   \<and> (\<not> js_includes (page_url drv sv) ''linkedin.com/feed'' \<and>
       \<not> js_includes (page_url drv sv) ''linkedin.com.home'' \<and>
       \<not> recursion_condition (page_url drv sv) currentUrl \<and>
       fst (page_screenshot drv ''linkedin-checkpoint-final.png'' sv) = Inr () \<and>
       fst (checkpointHeadless drv
              (snd (page_screenshot drv ''linkedin-checkpoint-final.png'' sv))) = Inr True \<longrightarrow>
        fst (checkpointVerdict drv currentUrl sv) = Inl headless_failure)"
proof (intro conjI impI)
  show "handleCheckpoint drv s = None \<longleftrightarrow> (\<forall>n. advance drv n s \<noteq> None)"
  proof
    assume none: "handleCheckpoint drv s = None"
    show "\<forall>n. advance drv n s \<noteq> None"
    proof (intro allI notI)
      fix n assume "advance drv n s = None"
      then have "handleCheckpoint drv s \<noteq> None" by (rule advance_stops_returns)
      then show False using none by simp
    qed
  next
    assume all: "\<forall>n. advance drv n s \<noteq> None"
    show "handleCheckpoint drv s = None"
    proof (cases "handleCheckpoint drv s")
      case None
      then show ?thesis .
    next
      case (Some y)
      then obtain n where "advance drv n s = None" using returns_advance_stops by blast
      then have False using all by simp
      then show ?thesis ..
    qed
  qed
next
  assume "advance drv n s = Some sn \<and> checkpointPass drv sn = (Inr Passed, s')"
  then show "handleCheckpoint drv s = Some (Inr (), s')"
    using advance_then_passed by blast
next
  assume "advance drv n s = Some sn \<and> checkpointPass drv sn = (Inl msg, s')"
  then show "handleCheckpoint drv s = Some (Inl ((checkpointFailed ^^ Suc n) msg), s')"
    using advance_then_failed by blast
next
  assume "checkpointPass drv sn = (Inr Advanced, s')"
  then show "recursion_condition (page_url drv s')
          (page_url drv (snd (page_screenshot drv ''linkedin-checkpoint.png'' sn)))"
    by (rule checkpointPass_advanced)
next
  show "checkpointVerdict drv currentUrl sv = (Inr Advanced, sv') \<longleftrightarrow>
        sv' = sv \<and> recursion_condition (page_url drv sv) currentUrl"
    by (rule checkpointVerdict_advanced_iff)
next
  assume "\<not> js_includes (page_url drv sv) ''linkedin.com/feed'' \<and>
       \<not> js_includes (page_url drv sv) ''linkedin.com.home'' \<and>
       \<not> recursion_condition (page_url drv sv) currentUrl \<and>
       fst (page_screenshot drv ''linkedin-checkpoint-final.png'' sv) = Inr () \<and>
       fst (checkpointHeadless drv
              (snd (page_screenshot drv ''linkedin-checkpoint-final.png'' sv))) = Inr True"
  then show "fst (checkpointVerdict drv currentUrl sv) = Inl headless_failure"
    using checkpointVerdict_headless by blast
qed

theorem handleCheckpoint_returns_iff_passes_stop_witness:
  "handleCheckpoint checkpoint_driver (ck_page True None) = None
   \<and> map_option fst
        (handleCheckpoint mock_driver
           (mock_page (blank\<lparr>mk_url := ''https://www.linkedin.com/feed/?trk=checkpoint''\<rparr>))) =
       Some (Inr ())
   \<and> map_option fst (handleCheckpoint checkpoint_driver (ck_page False (Some 2))) =
       Some (Inl (checkpointFailed (checkpointFailed (checkpointFailed headless_failure))))
   \<and> fst (checkpointPass checkpoint_driver (ck_page False (Some 1))) = Inr Advanced
   \<and> recursion_condition
        (page_url checkpoint_driver (snd (checkpointPass checkpoint_driver (ck_page False (Some 1)))))
        (page_url checkpoint_driver
           (snd (page_screenshot checkpoint_driver ''linkedin-checkpoint.png''
                   (ck_page False (Some 1)))))
   \<and> checkpointVerdict checkpoint_driver ''https://www.linkedin.com/checkpoint/challenge/B''
        (ck_page False None) = (Inr Advanced, ck_page False None)
   \<and> fst (checkpointVerdict checkpoint_driver ''https://www.linkedin.com/checkpoint/challenge/A''
        (ck_page False None)) = Inl headless_failure"
proof (intro conjI)
  have "\<forall>n. advance checkpoint_driver n (ck_page True None) \<noteq> None"
    by (simp add: ck_page_def advance_endless)
  then show "handleCheckpoint checkpoint_driver (ck_page True None) = None"
    using handleCheckpoint_returns_iff_passes_stop
            [where drv = checkpoint_driver and s = "ck_page True None"]
    by blast
next
  let ?s = "mock_page (blank\<lparr>mk_url := ''https://www.linkedin.com/feed/?trk=checkpoint''\<rparr>)"
  obtain s' where p: "checkpointPass mock_driver ?s = (Inr Passed, s')"
    using pass_feed_checkpoint by (cases "checkpointPass mock_driver ?s") simp
  have a: "advance mock_driver 0 ?s = Some ?s" by simp
  have "handleCheckpoint mock_driver ?s = Some (Inr (), s')"
    using handleCheckpoint_returns_iff_passes_stop
            [where drv = mock_driver and s = ?s and n = 0 and sn = ?s and s' = s'] a p
    by blast
  then show "map_option fst (handleCheckpoint mock_driver ?s) = Some (Inr ())" by simp
next
  obtain sn where a: "advance checkpoint_driver 2 (ck_page False (Some 2)) = Some sn"
    and w: "ck_budget (world sn) = Some 0"
    using advance_budget[of 2 False 0 "[]"] by (auto simp add: ck_page_def)
  have sn: "sn = \<lparr>world = \<lparr>ck_flip = ck_flip (world sn), ck_budget = Some 0\<rparr>, trace = trace sn\<rparr>"
    using w by (cases sn, cases "world sn") simp
  obtain s' where p: "checkpointPass checkpoint_driver sn = (Inl headless_failure, s')"
    using pass_budget_0[of "ck_flip (world sn)" "trace sn"] sn
    by (cases "checkpointPass checkpoint_driver sn") simp
  have "handleCheckpoint checkpoint_driver (ck_page False (Some 2)) =
          Some (Inl ((checkpointFailed ^^ Suc 2) headless_failure), s')"
    using handleCheckpoint_returns_iff_passes_stop
            [where drv = checkpoint_driver and s = "ck_page False (Some 2)" and n = 2
               and sn = sn and s' = s' and msg = headless_failure] a p
    by blast
  then show "map_option fst (handleCheckpoint checkpoint_driver (ck_page False (Some 2))) =
       Some (Inl (checkpointFailed (checkpointFailed (checkpointFailed headless_failure))))"
    by (simp add: numeral_2_eq_2)
next
  show adv: "fst (checkpointPass checkpoint_driver (ck_page False (Some 1))) = Inr Advanced"
    using pass_budget_Suc[of False 0 "[]"] by (simp add: ck_page_def)
  then have "checkpointPass checkpoint_driver (ck_page False (Some 1)) =
      (Inr Advanced, snd (checkpointPass checkpoint_driver (ck_page False (Some 1))))"
    by (cases "checkpointPass checkpoint_driver (ck_page False (Some 1))") simp
  then show "recursion_condition
        (page_url checkpoint_driver (snd (checkpointPass checkpoint_driver (ck_page False (Some 1)))))
        (page_url checkpoint_driver
           (snd (page_screenshot checkpoint_driver ''linkedin-checkpoint.png''
                   (ck_page False (Some 1)))))"
    using handleCheckpoint_returns_iff_passes_stop
            [where drv = checkpoint_driver and sn = "ck_page False (Some 1)"
               and s' = "snd (checkpointPass checkpoint_driver (ck_page False (Some 1)))"]
    by blast
next
  have "recursion_condition (page_url checkpoint_driver (ck_page False None))
          ''https://www.linkedin.com/checkpoint/challenge/B''"
    by (simp add: recursion_condition_def page_url_def ck_defs ck_page_def)
  then show "checkpointVerdict checkpoint_driver ''https://www.linkedin.com/checkpoint/challenge/B''
        (ck_page False None) = (Inr Advanced, ck_page False None)"
    using handleCheckpoint_returns_iff_passes_stop
            [where drv = checkpoint_driver and sv = "ck_page False None"
               and sv' = "ck_page False None"
               and currentUrl = "''https://www.linkedin.com/checkpoint/challenge/B''"]
    by blast
next
  have "\<not> js_includes (page_url checkpoint_driver (ck_page False None)) ''linkedin.com/feed''"
    and "\<not> js_includes (page_url checkpoint_driver (ck_page False None)) ''linkedin.com.home''"
    and "\<not> recursion_condition (page_url checkpoint_driver (ck_page False None))
          ''https://www.linkedin.com/checkpoint/challenge/A''"
    and "fst (page_screenshot checkpoint_driver ''linkedin-checkpoint-final.png''
           (ck_page False None)) = Inr ()"
    and "fst (checkpointHeadless checkpoint_driver
              (snd (page_screenshot checkpoint_driver ''linkedin-checkpoint-final.png''
                 (ck_page False None)))) = Inr True"
    by (simp_all add: recursion_condition_def page_url_def ck_defs ck_page_def
          page_screenshot_def perform_def checkpointHeadless_def getCredentials_def prog_defs)
  then show "fst (checkpointVerdict checkpoint_driver
        ''https://www.linkedin.com/checkpoint/challenge/A'' (ck_page False None)) =
        Inl headless_failure"
    using handleCheckpoint_returns_iff_passes_stop
            [where drv = checkpoint_driver and sv = "ck_page False None"
               and currentUrl = "''https://www.linkedin.com/checkpoint/challenge/A''"]
    by blast
qed

subsection \<open>The browser session of execute\<close>

lemmas execute_defs = execute_def executeBody_def openSession_def onPage_def browserCall_def
  outcome_def launchHeadless_def js_or_def processItem_def handlePostOperations_def Let_def

lemma launchHeadless_True: "launchHeadless credentials = True"
  by (simp add: launchHeadless_def js_or_def split: option.splits bool.splits)

lemma onPage_keeps:
  "onPage p se = Some (r, se') \<Longrightarrow>
   se_lifecycle se' = se_lifecycle se \<and> se_browser se' = se_browser se"
  by (auto simp add: onPage_def split: option.splits prod.splits)

lemma browserCall_lifecycle:
  "browserCall c f se = (r, se') \<Longrightarrow>
   se_browser se' = se_browser se \<and>
   se_lifecycle se' = se_lifecycle se @ [(c, outcome r)]"
  by (auto simp add: browserCall_def split: prod.splits)


lemma openSession_cases:
  assumes "openSession drv se = Some (r, se1)" and "se_lifecycle se = []" and "\<not> se_browser se"
  shows "(\<not> se_browser se1 \<and> (\<exists>msg. r = Inl msg) \<and>
            (se_lifecycle se1 = [] \<or> (\<exists>m. se_lifecycle se1 = [(Launch True, Rejected m)])))
       \<or> (se_browser se1 \<and> (\<exists>a. se_lifecycle se1 = [(Launch True, Resolved), (NewPage, a)]))"
proof -
  obtain r0 se0 where g: "onPage (\<lambda>pg. Some (getCredentials drv pg)) se = Some (r0, se0)"
    by (cases "getCredentials drv (se_page se)") (auto simp add: onPage_def)
  have k0: "se_lifecycle se0 = []" "\<not> se_browser se0"
    using onPage_keeps[OF g] assms(2,3) by simp_all
  show ?thesis
  proof (cases r0)
    case (Inl msg)
    then show ?thesis using assms(1) g k0 by (auto simp add: openSession_def)
  next
    case (Inr creds)
    show ?thesis
    proof (cases creds)
      case None
      then show ?thesis using assms(1) g k0 Inr by (auto simp add: openSession_def)
    next
      case (Some c)
      obtain r2 se2 where l: "browserCall (Launch True) (d_launch drv True) se0 = (r2, se2)"
        by (cases "browserCall (Launch True) (d_launch drv True) se0")
      note l2 = browserCall_lifecycle[OF l]
      show ?thesis
      proof (cases r2)
        case (Inl msg)
        then show ?thesis using assms(1) g k0 Inr Some l l2
          by (auto simp add: openSession_def launchHeadless_True outcome_def)
      next
        case (Inr u)
        obtain r3 se3 where
          n: "browserCall NewPage (d_newPage drv) (se2\<lparr>se_browser := True\<rparr>) = (r3, se3)"
          by (cases "browserCall NewPage (d_newPage drv) (se2\<lparr>se_browser := True\<rparr>)")
        note n2 = browserCall_lifecycle[OF n]
        have s3: "se_browser se3"
                 "\<exists>a. se_lifecycle se3 = [(Launch True, Resolved), (NewPage, a)]"
          using n2 l2 k0 Inr by (simp_all add: outcome_def)
        show ?thesis
        proof (cases r3)
          case (Inl msg)
          then show ?thesis using assms(1) g \<open>r0 = Inr creds\<close> Some l Inr n s3
            by (auto simp add: openSession_def launchHeadless_True)
        next
          case (Inr u')
          then have "onPage (loginToLinkedIn drv) se3 = Some (r, se1)"
            using assms(1) g \<open>r0 = Inr creds\<close> Some l \<open>r2 = Inr u\<close> n
            by (simp add: openSession_def launchHeadless_True)
          then show ?thesis using onPage_keeps s3 by metis
        qed
      qed
    qed
  qed
qed




lemma upt3: "[0..<3] = [0, 1, 2::nat]"
  by code_simp

text \<open>
  A batch on the mock login surface, under continue-on-fail: the second item fails and
  is recorded, the batch completes, the browser is launched headless and closed.
\<close>

lemma execute_batch_recorded_failure:
  "map_option (\<lambda>(r, se). (r, se_lifecycle se))
     (execute mock_driver batch_params no_handlers (mock_page login_surface)) =
   Some (Inr [(PostJson \<lparr>ar_success = True, ar_action = ''liked'', ar_url = post_url,
                         ar_comment = None\<rparr>, 0),
              (ErrorJson ''profile page unavailable'', 1), (OtherJson (), 2)],
         [(Launch True, Resolved), (NewPage, Resolved), (Close, Resolved)])"
  by (simp add: upt3 execute_defs login_defs prog_defs driver_call_defs mock_defs node_defs)

text \<open>The same batch without continue-on-fail: the error aborts it, the browser is closed.\<close>

lemma execute_batch_aborted:
  "map_option (\<lambda>(r, se). (r, se_lifecycle se))
     (execute mock_driver (batch_params\<lparr>np_continueOnFail := False\<rparr>) no_handlers
        (mock_page login_surface)) =
   Some (Inl ''profile page unavailable'',
         [(Launch True, Resolved), (NewPage, Resolved), (Close, Resolved)])"
  by (simp add: upt3 execute_defs login_defs prog_defs driver_call_defs mock_defs node_defs)

text \<open>
  Where the first close rejects, the catch block calls close again; the error that
  leaves \<^verbatim>\<open>execute\<close> is the one of the first close.
\<close>

lemma execute_close_rejected:
  "map_option (\<lambda>(r, se). (r, se_lifecycle se))
     (execute mock_driver batch_params no_handlers
        (mock_page (login_surface\<lparr>mk_close_rejects := 1\<rparr>))) =
   Some (Inl ''Protocol error: Target closed'',
         [(Launch True, Resolved), (NewPage, Resolved),
          (Close, Rejected ''Protocol error: Target closed''), (Close, Resolved)])"
  by (simp add: upt3 execute_defs login_defs prog_defs driver_call_defs mock_defs node_defs)

text \<open>
  A browser call acts on the world of the page and is recorded last in the trace.
\<close>

lemma browserCall_page:
  "browserCall c f se = (r, se') \<Longrightarrow>
   r = fst (f (world (se_page se))) \<and>
   se_page se' = \<lparr>world = snd (f (world (se_page se))),
                   trace = trace (se_page se) @ [(Browser c, outcome r)]\<rparr>"
  by (auto simp add: browserCall_def split: prod.splits)

text \<open>
  The exits of the \<^verbatim>\<open>try\<close> block, with the session the close was called on: either the
  block ends without a close, and then with an error whenever a browser is open, or its
  last step is the close of a session that has seen a launch and a new page and nothing
  else, and the block returns exactly when that close resolves.
\<close>

lemma tail_closed:
  assumes "(case onPage P se1 of
              None \<Rightarrow> None
            | Some (Inl msg, se2) \<Rightarrow> Some (Inl msg, se2)
            | Some (Inr returnData, se2) \<Rightarrow>
                if se_browser se2 then
                  (case browserCall Close (d_close drv) se2 of
                     (Inl msg, se3) \<Rightarrow> Some (Inl msg, se3)
                   | (Inr _, se3) \<Rightarrow> Some (Inr returnData, se3))
                else Some (Inr returnData, se2)) = Some (r, se')"
  shows "(se_browser se' = se_browser se1 \<and> se_lifecycle se' = se_lifecycle se1 \<and>
            (se_browser se1 \<longrightarrow> (\<exists>msg. r = Inl msg)))
       \<or> (se_browser se1 \<and> se_browser se' \<and>
            (\<exists>se2 r3. se_lifecycle se2 = se_lifecycle se1 \<and>
               browserCall Close (d_close drv) se2 = (r3, se') \<and>
               ((\<exists>m. r3 = Inl m \<and> r = Inl m) \<or> (r3 = Inr () \<and> (\<exists>returnData. r = Inr returnData)))))"
proof (cases "onPage P se1")
  case None
  then show ?thesis using assms by simp
next
  case (Some a)
  obtain r2 se2 where a: "a = (r2, se2)" by (cases a)
  note k = onPage_keeps[OF Some[unfolded a]]
  show ?thesis
  proof (cases r2)
    case (Inl msg)
    then show ?thesis using assms Some a k by auto
  next
    case (Inr returnData)
    show ?thesis
    proof (cases "se_browser se2")
      case False
      then show ?thesis using assms Some a k Inr by auto
    next
      case True
      obtain r3 se3 where c: "browserCall Close (d_close drv) se2 = (r3, se3)"
        by (cases "browserCall Close (d_close drv) se2")
      have b3: "se_browser se3" using browserCall_lifecycle[OF c] True by simp
      have se: "se' = se3" using assms Some a Inr True c by (cases r3) auto
      have res: "(\<exists>m. r3 = Inl m \<and> r = Inl m) \<or> (r3 = Inr () \<and> (\<exists>returnData. r = Inr returnData))"
        using assms Some a Inr True c by (cases r3) auto
      have "se_lifecycle se2 = se_lifecycle se1 \<and>
            browserCall Close (d_close drv) se2 = (r3, se') \<and>
            ((\<exists>m. r3 = Inl m \<and> r = Inl m) \<or> (r3 = Inr () \<and> (\<exists>returnData. r = Inr returnData)))"
        using k c se res by simp
      then have "\<exists>se2 r3. se_lifecycle se2 = se_lifecycle se1 \<and>
            browserCall Close (d_close drv) se2 = (r3, se') \<and>
            ((\<exists>m. r3 = Inl m \<and> r = Inl m) \<or> (r3 = Inr () \<and> (\<exists>returnData. r = Inr returnData)))"
        by blast
      moreover have "se_browser se1" using k True by simp
      moreover have "se_browser se'" using se b3 by simp
      ultimately show ?thesis by blast
    qed
  qed
qed

lemma executeBody_closed:
  assumes run: "executeBody drv params hs se0 = Some (r, se1)"
      and fresh: "se_lifecycle se0 = []" "\<not> se_browser se0"
  shows "(\<not> se_browser se1 \<and>
            (se_lifecycle se1 = [] \<or> (\<exists>m. se_lifecycle se1 = [(Launch True, Rejected m)])))
       \<or> (se_browser se1 \<and> (\<exists>msg. r = Inl msg) \<and>
            (\<exists>a. se_lifecycle se1 = [(Launch True, Resolved), (NewPage, a)]))
       \<or> (se_browser se1 \<and>
            (\<exists>a se2 r3. se_lifecycle se2 = [(Launch True, Resolved), (NewPage, a)] \<and>
               browserCall Close (d_close drv) se2 = (r3, se1) \<and>
               ((\<exists>m. r3 = Inl m \<and> r = Inl m) \<or> (r3 = Inr () \<and> (\<exists>returnData. r = Inr returnData)))))"
proof -
  let ?start = "if np_authentication params = ''browser'' then openSession drv se0
                else Some (Inr (), se0)"
  obtain r0 seA where st: "?start = Some (r0, seA)"
    using run by (cases ?start) (auto simp add: executeBody_def)
  have open_cases:
    "(\<not> se_browser seA \<and> (r0 = Inr () \<longrightarrow> se_lifecycle seA = []) \<and>
        (se_lifecycle seA = [] \<or> (\<exists>m. se_lifecycle seA = [(Launch True, Rejected m)])))
     \<or> (se_browser seA \<and> (\<exists>a. se_lifecycle seA = [(Launch True, Resolved), (NewPage, a)]))"
  proof (cases "np_authentication params = ''browser''")
    case True
    then have "openSession drv se0 = Some (r0, seA)" using st by simp
    from openSession_cases[OF this fresh] show ?thesis by auto
  next
    case False
    then show ?thesis using st fresh by auto
  qed
  show ?thesis
  proof (cases r0)
    case (Inl msg)
    then have "r = Inl msg" "se1 = seA" using run st by (auto simp add: executeBody_def)
    then show ?thesis using open_cases by auto
  next
    case (Inr u)
    let ?P = "processItems drv params hs [0..<np_items params] []"
    have tail: "(case onPage ?P seA of
              None \<Rightarrow> None
            | Some (Inl msg, se2) \<Rightarrow> Some (Inl msg, se2)
            | Some (Inr returnData, se2) \<Rightarrow>
                if se_browser se2 then
                  (case browserCall Close (d_close drv) se2 of
                     (Inl msg, se3) \<Rightarrow> Some (Inl msg, se3)
                   | (Inr _, se3) \<Rightarrow> Some (Inr returnData, se3))
                else Some (Inr returnData, se2)) = Some (r, se1)"
      using run st Inr by (simp add: executeBody_def)
    from tail_closed[OF tail] consider
        (quiet) "se_browser se1 = se_browser seA" "se_lifecycle se1 = se_lifecycle seA"
                "se_browser seA \<longrightarrow> (\<exists>msg. r = Inl msg)"
      | (closed) se2 r3 where "se_browser seA" "se_browser se1"
                "se_lifecycle se2 = se_lifecycle seA"
                "browserCall Close (d_close drv) se2 = (r3, se1)"
                "(\<exists>m. r3 = Inl m \<and> r = Inl m) \<or> (r3 = Inr () \<and> (\<exists>returnData. r = Inr returnData))"
      by blast
    then show ?thesis
    proof cases
      case quiet
      then show ?thesis using open_cases Inr by auto
    next
      case closed
      then obtain a where "se_lifecycle se2 = [(Launch True, Resolved), (NewPage, a)]"
        using open_cases by auto
      then have "\<exists>a se2 r3. se_lifecycle se2 = [(Launch True, Resolved), (NewPage, a)] \<and>
               browserCall Close (d_close drv) se2 = (r3, se1) \<and>
               ((\<exists>m. r3 = Inl m \<and> r = Inl m) \<or> (r3 = Inr () \<and> (\<exists>returnData. r = Inr returnData)))"
        using closed(4,5) by blast
      then show ?thesis using closed(2) by blast
    qed
  qed
qed

text \<open>
  Every exit of \<^verbatim>\<open>execute\<close>, return or throw: no browser was launched; or the last step
  was the one close call of the run, made on a session that has seen a launch and a new
  page, and an error of that close is the error thrown; or the close that ends the \<^verbatim>\<open>try\<close>
  block rejected and the last step was a second close, from the \<^verbatim>\<open>catch\<close> block.
\<close>

lemma execute_exit:
  assumes run: "execute drv params hs pg = Some (r, se)"
  shows "(se_lifecycle se = [] \<or> (\<exists>m. se_lifecycle se = [(Launch True, Rejected m)]))
       \<or> (\<exists>a se0 r2. se_lifecycle se0 = [(Launch True, Resolved), (NewPage, a)] \<and>
             browserCall Close (d_close drv) se0 = (r2, se) \<and>
             (r2 = Inr () \<or> (\<exists>m. r2 = Inl m \<and> r = Inl m)))
       \<or> (\<exists>a se0 m se1 r2. se_lifecycle se0 = [(Launch True, Resolved), (NewPage, a)] \<and>
             browserCall Close (d_close drv) se0 = (Inl m, se1) \<and>
             browserCall Close (d_close drv) se1 = (r2, se) \<and>
             (r = Inl m \<or> (\<exists>m'. r2 = Inl m' \<and> r = Inl m')))"
proof -
  let ?se0 = "\<lparr>se_page = pg, se_lifecycle = [], se_browser = False\<rparr>"
  obtain r1 se1 where b: "executeBody drv params hs ?se0 = Some (r1, se1)"
    using run by (cases "executeBody drv params hs ?se0") (auto simp add: execute_def)
  from executeBody_closed[OF b, simplified] consider
      (none) "\<not> se_browser se1"
             "se_lifecycle se1 = [] \<or> (\<exists>m. se_lifecycle se1 = [(Launch True, Rejected m)])"
    | (failed) msg a where "se_browser se1" "r1 = Inl msg"
             "se_lifecycle se1 = [(Launch True, Resolved), (NewPage, a)]"
    | (closed) a se2 r3 where "se_browser se1"
             "se_lifecycle se2 = [(Launch True, Resolved), (NewPage, a)]"
             "browserCall Close (d_close drv) se2 = (r3, se1)"
             "(\<exists>m. r3 = Inl m \<and> r1 = Inl m) \<or> (r3 = Inr () \<and> (\<exists>returnData. r1 = Inr returnData))"
    by blast
  then show ?thesis
  proof cases
    case none
    then have "se = se1" using run b by (cases r1) (auto simp add: execute_def)
    then show ?thesis using none by simp
  next
    case failed
    obtain r2 se2 where c: "browserCall Close (d_close drv) se1 = (r2, se2)"
      by (cases "browserCall Close (d_close drv) se1")
    have se: "se = se2" using run b failed c by (cases r2) (auto simp add: execute_def)
    have "r2 = Inr () \<or> (\<exists>m. r2 = Inl m \<and> r = Inl m)"
      using run b failed c by (cases r2) (auto simp add: execute_def)
    then have "\<exists>a se0 r2. se_lifecycle se0 = [(Launch True, Resolved), (NewPage, a)] \<and>
             browserCall Close (d_close drv) se0 = (r2, se) \<and>
             (r2 = Inr () \<or> (\<exists>m. r2 = Inl m \<and> r = Inl m))"
      using failed(3) c se by blast
    then show ?thesis by blast
  next
    case closed
    show ?thesis
    proof (cases r3)
      case (Inr u)
      then obtain returnData where "r1 = Inr returnData" using closed(4) by auto
      then have "se = se1" using run b by (simp add: execute_def)
      then have "\<exists>a se0 r2. se_lifecycle se0 = [(Launch True, Resolved), (NewPage, a)] \<and>
             browserCall Close (d_close drv) se0 = (r2, se) \<and>
             (r2 = Inr () \<or> (\<exists>m. r2 = Inl m \<and> r = Inl m))"
        using closed(2,3) Inr by auto
      then show ?thesis by blast
    next
      case (Inl m)
      then have r1: "r1 = Inl m" using closed(4) by auto
      obtain r2 se2 where c: "browserCall Close (d_close drv) se1 = (r2, se2)"
        by (cases "browserCall Close (d_close drv) se1")
      have se: "se = se2" using run b r1 closed(1) c by (cases r2) (auto simp add: execute_def)
      have "r = Inl m \<or> (\<exists>m'. r2 = Inl m' \<and> r = Inl m')"
        using run b r1 closed(1) c by (cases r2) (auto simp add: execute_def)
      then have "\<exists>a se0 m se1 r2. se_lifecycle se0 = [(Launch True, Resolved), (NewPage, a)] \<and>
             browserCall Close (d_close drv) se0 = (Inl m, se1) \<and>
             browserCall Close (d_close drv) se1 = (r2, se) \<and>
             (r = Inl m \<or> (\<exists>m'. r2 = Inl m' \<and> r = Inl m'))"
        using closed(2,3) Inl c se by blast
      then show ?thesis by blast
    qed
  qed
qed

text \<open>A run that launches no browser: the batch under the other authentication.\<close>

lemma execute_no_browser:
  "map_option (\<lambda>(r, se). (r, se_lifecycle se))
     (execute mock_driver api_params no_handlers (mock_page login_surface)) =
   Some (Inr [(ErrorJson ''API-based operations are not implemented yet'', 0),
              (ErrorJson ''API-based operations are not implemented yet'', 1),
              (ErrorJson ''API-based operations are not implemented yet'', 2)], [])"
  by (simp add: upt3 api_params_def execute_defs login_defs prog_defs driver_call_defs mock_defs
        node_defs)

text \<open>
  Claim C8 fails where \<^verbatim>\<open>browser.close()\<close> rejects. The close that ends the \<^verbatim>\<open>try\<close> block
  is inside the block, so its error reaches the \<^verbatim>\<open>catch\<close> block, which calls close again:
  on the mock whose first close rejects, the browser is closed twice. Where the second
  close rejects as well, its error leaves \<^verbatim>\<open>execute\<close> with the browser open.
\<close>

theorem execute_closes_twice:
  "map_option (se_lifecycle \<circ> snd)
     (execute mock_driver batch_params no_handlers
        (mock_page (login_surface\<lparr>mk_close_rejects := 1\<rparr>))) =
   Some [(Launch True, Resolved), (NewPage, Resolved),
         (Close, Rejected ''Protocol error: Target closed''), (Close, Resolved)] \<and>
   map_option fst
     (execute mock_driver batch_params no_handlers
        (mock_page (login_surface\<lparr>mk_close_rejects := 2\<rparr>))) =
   Some (Inl ''Protocol error: Target closed'') \<and>
   map_option (mk_open \<circ> world \<circ> se_page \<circ> snd)
     (execute mock_driver batch_params no_handlers
        (mock_page (login_surface\<lparr>mk_close_rejects := 2\<rparr>))) =
   Some True"
  by (simp add: upt3 execute_defs login_defs prog_defs driver_call_defs mock_defs node_defs)

text \<open>
  Claim C8, amended. On every exit path of \<^verbatim>\<open>execute\<close>, return or throw, on which no call
  of \<^verbatim>\<open>browser.close()\<close> rejects, the browser that was launched is closed exactly once: after
  the batch completes, after a recorded per-item failure, and when an error aborts the
  batch. On these paths the close is the last call \<^verbatim>\<open>execute\<close> makes, after every call on
  the page, it resolves, and the world is left as the driver's close leaves it, so no such
  path ends with the browser open. On every path, close is not called when no browser was
  launched, is called at least once and last when one was, and is called at most twice,
  with at most one call resolving. It is called twice only where the close that ends the
  \<^verbatim>\<open>try\<close> block rejects and the \<^verbatim>\<open>catch\<close> block calls it again, and then \<^verbatim>\<open>execute\<close> throws.
\<close>

theorem browser_closed_once_unless_close_rejects:
  assumes run: "execute drv params hs pg = Some (r, se)"
  shows "resolved_closes (se_lifecycle se) \<le> 1
       \<and> closes (se_lifecycle se) \<le> 2
       \<and> (\<not> launched (se_lifecycle se) \<longrightarrow> closes (se_lifecycle se) = 0)
       \<and> (launched (se_lifecycle se) \<longrightarrow>
            1 \<le> closes (se_lifecycle se) \<and>
            (\<exists>w. se_page se =
               \<lparr>world = snd (d_close drv w),
                trace = butlast (trace (se_page se)) @
                        [(Browser Close, outcome (fst (d_close drv w)))]\<rparr>))
       \<and> (launched (se_lifecycle se) \<and> (\<forall>m. (Close, Rejected m) \<notin> set (se_lifecycle se)) \<longrightarrow>
            closes (se_lifecycle se) = 1 \<and>
            last (se_lifecycle se) = (Close, Resolved) \<and>
            (\<exists>w t. fst (d_close drv w) = Inr () \<and>
               se_page se = \<lparr>world = snd (d_close drv w),
                              trace = t @ [(Browser Close, Resolved)]\<rparr>))
       \<and> (closes (se_lifecycle se) = 2 \<longrightarrow>
            (\<exists>a m c. se_lifecycle se =
               [(Launch True, Resolved), (NewPage, a), (Close, Rejected m), (Close, c)]) \<and>
            (\<exists>msg. r = Inl msg))"
proof -
  from execute_exit[OF run] consider
      (none) "se_lifecycle se = [] \<or> (\<exists>m. se_lifecycle se = [(Launch True, Rejected m)])"
    | (once) a se0 r2 where "se_lifecycle se0 = [(Launch True, Resolved), (NewPage, a)]"
             "browserCall Close (d_close drv) se0 = (r2, se)"
             "r2 = Inr () \<or> (\<exists>m. r2 = Inl m \<and> r = Inl m)"
    | (twice) a se0 m se1 r2 where "se_lifecycle se0 = [(Launch True, Resolved), (NewPage, a)]"
             "browserCall Close (d_close drv) se0 = (Inl m, se1)"
             "browserCall Close (d_close drv) se1 = (r2, se)"
             "r = Inl m \<or> (\<exists>m'. r2 = Inl m' \<and> r = Inl m')"
    by blast
  then show ?thesis
  proof cases
    case none
    then show ?thesis
      by (auto simp add: resolved_closes_def closes_def launched_def)
  next
    case once
    let ?w = "world (se_page se0)"
    have lc: "se_lifecycle se = [(Launch True, Resolved), (NewPage, a), (Close, outcome r2)]"
      using browserCall_lifecycle[OF once(2)] once(1) by simp
    have pg: "r2 = fst (d_close drv ?w)"
             "se_page se = \<lparr>world = snd (d_close drv ?w),
                             trace = trace (se_page se0) @ [(Browser Close, outcome r2)]\<rparr>"
      using browserCall_page[OF once(2)] by simp_all
    have last: "\<exists>w. se_page se =
               \<lparr>world = snd (d_close drv w),
                trace = butlast (trace (se_page se)) @
                        [(Browser Close, outcome (fst (d_close drv w)))]\<rparr>"
      using pg by (intro exI[of _ ?w]) simp
    have clean: "\<exists>w t. fst (d_close drv w) = Inr () \<and>
               se_page se = \<lparr>world = snd (d_close drv w),
                              trace = t @ [(Browser Close, Resolved)]\<rparr>"
      if "\<forall>m. (Close, Rejected m) \<notin> set (se_lifecycle se)"
    proof -
      have "r2 = Inr ()" using that lc by (cases r2) (auto simp add: outcome_def)
      then show ?thesis using pg
        by (intro exI[of _ ?w] exI[of _ "trace (se_page se0)"]) (simp add: outcome_def)
    qed
    have one: "closes (se_lifecycle se) = 1" "resolved_closes (se_lifecycle se) \<le> 1"
              "launched (se_lifecycle se)"
      using lc by (simp_all add: closes_def resolved_closes_def launched_def)
    have res: "last (se_lifecycle se) = (Close, Resolved)"
      if "\<forall>m. (Close, Rejected m) \<notin> set (se_lifecycle se)"
      using that lc by (cases r2) (auto simp add: outcome_def)
    show ?thesis using one last clean res by simp
  next
    case twice
    let ?w = "world (se_page se1)"
    have lc1: "se_lifecycle se1 = [(Launch True, Resolved), (NewPage, a), (Close, Rejected m)]"
      using browserCall_lifecycle[OF twice(2)] twice(1) by (simp add: outcome_def)
    have lc: "se_lifecycle se =
        [(Launch True, Resolved), (NewPage, a), (Close, Rejected m), (Close, outcome r2)]"
      using browserCall_lifecycle[OF twice(3)] lc1 by simp
    have pg: "r2 = fst (d_close drv ?w)"
             "se_page se = \<lparr>world = snd (d_close drv ?w),
                             trace = trace (se_page se1) @ [(Browser Close, outcome r2)]\<rparr>"
      using browserCall_page[OF twice(3)] by simp_all
    have last: "\<exists>w. se_page se =
               \<lparr>world = snd (d_close drv w),
                trace = butlast (trace (se_page se)) @
                        [(Browser Close, outcome (fst (d_close drv w)))]\<rparr>"
      using pg by (intro exI[of _ ?w]) simp
    have two: "closes (se_lifecycle se) = 2" "resolved_closes (se_lifecycle se) \<le> 1"
              "launched (se_lifecycle se)" "(Close, Rejected m) \<in> set (se_lifecycle se)"
      using lc by (simp_all add: closes_def resolved_closes_def launched_def)
    have shape: "\<exists>a m c. se_lifecycle se =
               [(Launch True, Resolved), (NewPage, a), (Close, Rejected m), (Close, c)]"
      using lc by blast
    have thrown: "\<exists>msg. r = Inl msg" using twice(4) by blast
    show ?thesis using two last shape thrown by auto
  qed
qed

theorem browser_closed_once_unless_close_rejects_witness:
  "(\<exists>r se. execute mock_driver batch_params no_handlers (mock_page login_surface) = Some (r, se)
      \<and> launched (se_lifecycle se)
      \<and> (\<forall>m. (Close, Rejected m) \<notin> set (se_lifecycle se))
      \<and> closes (se_lifecycle se) = 1
      \<and> last (se_lifecycle se) = (Close, Resolved)
      \<and> last (trace (se_page se)) = (Browser Close, Resolved)
      \<and> \<not> mk_open (world (se_page se)))
   \<and> (\<exists>r se. execute mock_driver api_params no_handlers (mock_page login_surface) = Some (r, se)
      \<and> \<not> launched (se_lifecycle se)
      \<and> closes (se_lifecycle se) = 0)
   \<and> (\<exists>r se. execute mock_driver batch_params no_handlers
                (mock_page (login_surface\<lparr>mk_close_rejects := 1\<rparr>)) = Some (r, se)
      \<and> closes (se_lifecycle se) = 2
      \<and> (\<exists>msg. r = Inl msg))"
proof (intro conjI)
  obtain r se where
    run: "execute mock_driver batch_params no_handlers (mock_page login_surface) = Some (r, se)"
    and lc: "se_lifecycle se = [(Launch True, Resolved), (NewPage, Resolved), (Close, Resolved)]"
    using execute_batch_recorded_failure by (auto simp add: map_option_case split: option.splits)
  have la: "launched (se_lifecycle se)" using lc by (simp add: launched_def)
  have nr: "\<forall>m. (Close, Rejected m) \<notin> set (se_lifecycle se)" using lc by simp
  from browser_closed_once_unless_close_rejects[OF run] la nr
  obtain w t where c: "closes (se_lifecycle se) = 1" "last (se_lifecycle se) = (Close, Resolved)"
    and ok: "fst (d_close mock_driver w) = Inr ()"
    and pg: "se_page se = \<lparr>world = snd (d_close mock_driver w),
                            trace = t @ [(Browser Close, Resolved)]\<rparr>"
    by blast
  have "last (trace (se_page se)) = (Browser Close, Resolved)" using pg by simp
  moreover have "\<not> mk_open (world (se_page se))"
    using ok pg by (simp add: mock_driver_def split: if_splits)
  ultimately show "\<exists>r se. execute mock_driver batch_params no_handlers (mock_page login_surface) =
        Some (r, se)
      \<and> launched (se_lifecycle se)
      \<and> (\<forall>m. (Close, Rejected m) \<notin> set (se_lifecycle se))
      \<and> closes (se_lifecycle se) = 1
      \<and> last (se_lifecycle se) = (Close, Resolved)
      \<and> last (trace (se_page se)) = (Browser Close, Resolved)
      \<and> \<not> mk_open (world (se_page se))"
    using run la nr c by blast
next
  obtain r se where
    run: "execute mock_driver api_params no_handlers (mock_page login_surface) = Some (r, se)"
    and lc: "se_lifecycle se = []"
    using execute_no_browser by (auto simp add: map_option_case split: option.splits)
  have nl: "\<not> launched (se_lifecycle se)" using lc by (simp add: launched_def)
  then have "closes (se_lifecycle se) = 0"
    using browser_closed_once_unless_close_rejects[OF run] by blast
  then show "\<exists>r se. execute mock_driver api_params no_handlers (mock_page login_surface) =
        Some (r, se)
      \<and> \<not> launched (se_lifecycle se)
      \<and> closes (se_lifecycle se) = 0"
    using run nl by blast
next
  obtain r se where
    run: "execute mock_driver batch_params no_handlers
            (mock_page (login_surface\<lparr>mk_close_rejects := 1\<rparr>)) = Some (r, se)"
    and lc: "se_lifecycle se = [(Launch True, Resolved), (NewPage, Resolved),
          (Close, Rejected ''Protocol error: Target closed''), (Close, Resolved)]"
    using execute_close_rejected by (auto simp add: map_option_case split: option.splits)
  have two: "closes (se_lifecycle se) = 2" using lc by (simp add: closes_def)
  then have "\<exists>msg. r = Inl msg"
    using browser_closed_once_unless_close_rejects[OF run] by blast
  then show "\<exists>r se. execute mock_driver batch_params no_handlers
                (mock_page (login_surface\<lparr>mk_close_rejects := 1\<rparr>)) = Some (r, se)
      \<and> closes (se_lifecycle se) = 2
      \<and> (\<exists>msg. r = Inl msg)"
    using run two by blast
qed



end
